theory Spec2Isabelle
  imports Main "HOL-Library.Word"
begin

section \<open>Symbol-file debug logging (gdb/symfile-debug.c)\<close>

text \<open>
  The file wraps the per-objfile table of symbol-reader functions (\<open>struct sym_fns\<close>)
  in a table of logging proxies, and forwards the symbol queries of an objfile to its
  \<open>quick_symbol_functions\<close> object. The embedding below keeps the names of the source.
  An objfile, a BFD, a section, a symtab and every other object owned by the rest of the
  debugger is known here by its address only, a natural number.
\<close>

subsection \<open>Outcomes of calls\<close>

text \<open>
  \<open>Internal_error\<close> is what \<open>gdb_assert\<close> and \<open>gdb_assert_not_reached\<close> raise, with the
  text of the failed assertion. \<open>Memory_fault\<close> is a read or a call through a null or
  dangling pointer. \<open>Stack_overflow\<close> ends a chain of proxies calling proxies that is
  deeper than the stack. \<open>Store_failure\<close> is a failed operation of the per-objfile
  key-value store.
\<close>

datatype failure = Internal_error string | Memory_fault | Stack_overflow | Store_failure

text \<open>
  A call returns a value, throws a debugger error (which the callers up the stack may
  catch), or ends in a failure. Effects made before a throw stay made, so every call
  yields its outcome together with the state it leaves.
\<close>

datatype 'a outcome = Returns 'a | Throws string | Aborts failure

text \<open>
  The functions supplied by a symbol-format backend work on the part of the debugger
  that this file never looks at, the type variable \<open>'w\<close>.
\<close>

type_synonym ('a, 'w) extern = "'w \<Rightarrow> 'a outcome \<times> 'w"

subsection \<open>The log\<close>

text \<open>
  \<open>fprintf_filtered\<close> is called with a format string and arguments. A line of the log is
  the format (without its final newline) and the arguments, each tagged with the rendering
  function the source applies to it.
\<close>

datatype printf_arg =
    Objfile_debug_name nat
  | Host_address_to_string nat
  | Hex_string nat
  | Domain_name nat
  | Search_domain_name nat
  | Debug_symtab_name nat
  | Int_arg int
  | Unsigned_arg nat
  | String_arg string
  | Null_arg

type_synonym trace_line = "string \<times> printf_arg list"

subsection \<open>The table of symbol-reader functions\<close>

text \<open>
  A function pointer of each C function type used in \<open>struct sym_fns\<close> is either a
  function of a backend or one of the static proxies of this file that has this type.
\<close>

datatype 'w objfile_fn =
    Backend_objfile_fn "nat \<Rightarrow> (unit, 'w) extern"
  | Debug_sym_new_init
  | Debug_sym_init
  | Debug_sym_finish
  | Debug_sym_read_linetable

datatype 'w read_fn =
    Backend_read_fn "nat \<Rightarrow> 32 word \<Rightarrow> (unit, 'w) extern"
  | Debug_sym_read

datatype 'w offsets_fn =
    Backend_offsets_fn "nat \<Rightarrow> nat \<Rightarrow> (unit, 'w) extern"
  | Debug_sym_offsets

datatype 'w segments_fn =
    Backend_segments_fn "nat \<Rightarrow> (nat option, 'w) extern"
  | Debug_sym_segments

datatype 'w relocate_fn =
    Backend_relocate_fn "nat \<Rightarrow> nat \<Rightarrow> nat \<Rightarrow> (nat, 'w) extern"
  | Debug_sym_relocate

text \<open>A reference to a vector of probes: the vector's address and what \<open>data ()\<close> gives.\<close>

record probe_vector =
  vector_addr :: nat
  vector_data :: nat

datatype 'w get_probes_fn =
    Backend_get_probes_fn "nat \<Rightarrow> (probe_vector, 'w) extern"
  | Debug_sym_get_probes

text \<open>A slot is a nullable function pointer: \<open>None\<close> is \<open>NULL\<close>.\<close>

record 'w sym_probe_fns =
  sym_get_probes :: "'w get_probes_fn option"

record 'w sym_fns =
  sym_new_init :: "'w objfile_fn option"
  sym_init :: "'w objfile_fn option"
  sym_read :: "'w read_fn option"
  sym_finish :: "'w objfile_fn option"
  sym_offsets :: "'w offsets_fn option"
  sym_segments :: "'w segments_fn option"
  sym_read_linetable :: "'w objfile_fn option"
  sym_relocate :: "'w relocate_fn option"
  sym_probe_fns :: "'w sym_probe_fns option"

text \<open>
  A \<open>const struct sym_fns *\<close> is null, the address of a table in static storage, or the
  address of the \<open>debug_sf\<close> member of the \<open>debug_sym_fns_data\<close> attached to an objfile.
\<close>

datatype sf_ptr = Null_sf | Static_sf nat | Debug_sf nat

record 'w debug_sym_fns_data =
  real_sf :: sf_ptr
  debug_sf :: "'w sym_fns"

text \<open>A \<open>struct sym_fns\<close> initialised with \<open>{}\<close>: every slot null.\<close>

definition null_sym_fns :: "'w sym_fns" where
  "null_sym_fns =
     \<lparr>sym_new_init = None, sym_init = None, sym_read = None, sym_finish = None,
      sym_offsets = None, sym_segments = None, sym_read_linetable = None,
      sym_relocate = None, sym_probe_fns = None\<rparr>"

definition debug_sym_probe_fns :: "'w sym_probe_fns" where
  "debug_sym_probe_fns = \<lparr>sym_get_probes = Some Debug_sym_get_probes\<rparr>"

definition debug_sym_fns :: "'w sym_fns" where
  "debug_sym_fns =
     \<lparr>sym_new_init = Some Debug_sym_new_init,
      sym_init = Some Debug_sym_init,
      sym_read = Some Debug_sym_read,
      sym_finish = Some Debug_sym_finish,
      sym_offsets = Some Debug_sym_offsets,
      sym_segments = Some Debug_sym_segments,
      sym_read_linetable = Some Debug_sym_read_linetable,
      sym_relocate = Some Debug_sym_relocate,
      sym_probe_fns = Some debug_sym_probe_fns\<rparr>"

subsection \<open>Objfiles and the state of the debugger\<close>

text \<open>
  The capability object of an objfile, \<open>quick_symbol_functions\<close>, with the methods this
  file calls. Each takes the objfile first (\<open>can_lazily_read_symbols\<close> takes nothing).
  \<open>lookup_global_symbol_language\<close> takes the value of \<open>*symbol_found_p\<close> and returns,
  beside the language, the value it leaves there.
\<close>

datatype language = Language_unknown | Language_other nat

record 'w quick_symbol_functions =
  can_lazily_read_symbols :: "(bool, 'w) extern"
  has_symbols :: "nat \<Rightarrow> (bool, 'w) extern"
  find_last_source_symtab :: "nat \<Rightarrow> (nat option, 'w) extern"
  forget_cached_source_info :: "nat \<Rightarrow> (unit, 'w) extern"
  map_symtabs_matching_filename ::
    "nat \<Rightarrow> string \<Rightarrow> string option \<Rightarrow> nat \<Rightarrow> (bool, 'w) extern"
  lookup_symbol :: "nat \<Rightarrow> int \<Rightarrow> string \<Rightarrow> nat \<Rightarrow> (nat option, 'w) extern"
  print_stats :: "nat \<Rightarrow> bool \<Rightarrow> (unit, 'w) extern"
  dump :: "nat \<Rightarrow> (unit, 'w) extern"
  expand_symtabs_for_function :: "nat \<Rightarrow> string \<Rightarrow> (unit, 'w) extern"
  expand_all_symtabs :: "nat \<Rightarrow> (unit, 'w) extern"
  expand_symtabs_with_fullname :: "nat \<Rightarrow> string \<Rightarrow> (unit, 'w) extern"
  map_matching_symbols ::
    "nat \<Rightarrow> nat \<Rightarrow> nat \<Rightarrow> int \<Rightarrow> nat \<Rightarrow> nat \<Rightarrow> (unit, 'w) extern"
  expand_symtabs_matching ::
    "nat \<Rightarrow> nat \<Rightarrow> nat \<Rightarrow> nat \<Rightarrow> nat \<Rightarrow> nat \<Rightarrow> (unit, 'w) extern"
  find_pc_sect_compunit_symtab ::
    "nat \<Rightarrow> nat \<Rightarrow> nat \<Rightarrow> nat \<Rightarrow> int \<Rightarrow> (nat option, 'w) extern"
  map_symbol_filenames :: "nat \<Rightarrow> nat \<Rightarrow> nat \<Rightarrow> int \<Rightarrow> (unit, 'w) extern"
  find_compunit_symtab_by_address :: "nat \<Rightarrow> nat \<Rightarrow> (nat option, 'w) extern"
  lookup_global_symbol_language ::
    "nat \<Rightarrow> string \<Rightarrow> nat \<Rightarrow> bool \<Rightarrow> (language \<times> bool, 'w) extern"

text \<open>The fields of \<open>struct objfile\<close> that this file reads or writes.\<close>

record 'w objfile =
  sf :: sf_ptr
  qf :: "'w quick_symbol_functions option"
  flags :: "32 word"

text \<open>
  The state: the flag \<open>debug_symfile\<close>, the program spaces with the objfiles of each (by
  address, in iteration order), the memory holding the objfiles and the static tables,
  the per-objfile store behind \<open>symfile_debug_objfile_data_key\<close>, the stream
  \<open>gdb_stdlog\<close>, and the rest of the debugger.
\<close>

record 'w gdb =
  debug_symfile :: bool
  program_spaces :: "nat list list"
  objfile_at :: "nat \<Rightarrow> 'w objfile"
  sym_fns_at :: "nat \<Rightarrow> 'w sym_fns"
  symfile_debug_objfile_data_key :: "nat \<rightharpoonup> 'w debug_sym_fns_data"
  gdb_stdlog :: "trace_line list"
  world :: 'w

definition fprintf_filtered :: "'w gdb \<Rightarrow> string \<Rightarrow> printf_arg list \<Rightarrow> 'w gdb" where
  "fprintf_filtered st format args = st\<lparr>gdb_stdlog := gdb_stdlog st @ [(format, args)]\<rparr>"

text \<open>The assignment \<open>objfile->sf = p\<close>.\<close>

definition set_sf :: "'w gdb \<Rightarrow> nat \<Rightarrow> sf_ptr \<Rightarrow> 'w gdb" where
  "set_sf st objfile p =
     st\<lparr>objfile_at := (objfile_at st)(objfile := (objfile_at st objfile)\<lparr>sf := p\<rparr>)\<rparr>"

text \<open>
  Reading through a \<open>const struct sym_fns *\<close>: a null pointer, and a pointer into
  \<open>debug_sym_fns_data\<close> that the store no longer holds, cannot be read.
\<close>

definition deref_sf :: "'w gdb \<Rightarrow> sf_ptr \<Rightarrow> 'w sym_fns option" where
  "deref_sf st p =
     (case p of
        Null_sf \<Rightarrow> None
      | Static_sf a \<Rightarrow> Some (sym_fns_at st a)
      | Debug_sf objfile \<Rightarrow> map_option debug_sf (symfile_debug_objfile_data_key st objfile))"

subsection \<open>The per-objfile store\<close>

text \<open>
  Modelled from the spec: the class \<open>objfile_key\<close> of objfiles.h, with its
  \<open>get\<close>, \<open>set\<close> and \<open>clear\<close>, is not among the sources. By section 4.1,
  \<open>get\<close> returns the entry or an absence marker and never fails, \<open>set\<close> fails if the
  objfile already has an entry, and \<open>clear\<close> removes the entry and fails if there is none.
\<close>

definition key_get :: "'w gdb \<Rightarrow> nat \<Rightarrow> 'w debug_sym_fns_data option" where
  "key_get st objfile = symfile_debug_objfile_data_key st objfile"

definition key_set :: "'w gdb \<Rightarrow> nat \<Rightarrow> 'w debug_sym_fns_data \<Rightarrow> failure + 'w gdb" where
  "key_set st objfile debug_data =
     (if symfile_debug_objfile_data_key st objfile \<noteq> None then Inl Store_failure
      else Inr (st\<lparr>symfile_debug_objfile_data_key :=
                  (symfile_debug_objfile_data_key st)(objfile \<mapsto> debug_data)\<rparr>))"

definition key_clear :: "'w gdb \<Rightarrow> nat \<Rightarrow> failure + 'w gdb" where
  "key_clear st objfile =
     (if symfile_debug_objfile_data_key st objfile = None then Inl Store_failure
      else Inr (st\<lparr>symfile_debug_objfile_data_key :=
                  (symfile_debug_objfile_data_key st)(objfile := None)\<rparr>))"

subsection \<open>Installing and removing the proxies\<close>

definition symfile_debug_installed :: "'w gdb \<Rightarrow> nat \<Rightarrow> bool" where
  "symfile_debug_installed st objfile =
     (sf (objfile_at st objfile) \<noteq> Null_sf \<and> key_get st objfile \<noteq> None)"

text \<open>
  The macro \<open>COPY_SF_PTR (from, to, name, func)\<close>; the member \<open>name\<close> is given by its
  selector and its update function.
\<close>

definition COPY_SF_PTR ::
  "'w sym_fns \<Rightarrow> 'w debug_sym_fns_data \<Rightarrow> ('w sym_fns \<Rightarrow> 'f option)
   \<Rightarrow> (('f option \<Rightarrow> 'f option) \<Rightarrow> 'w sym_fns \<Rightarrow> 'w sym_fns) \<Rightarrow> 'f
   \<Rightarrow> 'w debug_sym_fns_data" where
  "COPY_SF_PTR from_sf to_data name name_update func =
     (if name from_sf \<noteq> None
      then to_data\<lparr>debug_sf := name_update (\<lambda>_. Some func) (debug_sf to_data)\<rparr>
      else to_data)"

definition install_symfile_debug_logging :: "'w gdb \<Rightarrow> nat \<Rightarrow> failure + 'w gdb" where
  "install_symfile_debug_logging st objfile =
     (if symfile_debug_installed st objfile
      then Inl (Internal_error ''!symfile_debug_installed (objfile)'')
      else
        let real_sf' = sf (objfile_at st objfile) in
        case deref_sf st real_sf' of
          None \<Rightarrow> Inl Memory_fault
        | Some from_sf \<Rightarrow>
            let debug_data = \<lparr>real_sf = Null_sf, debug_sf = null_sym_fns\<rparr>;
                debug_data = COPY_SF_PTR from_sf debug_data
                               sym_new_init sym_new_init_update Debug_sym_new_init;
                debug_data = COPY_SF_PTR from_sf debug_data
                               sym_init sym_init_update Debug_sym_init;
                debug_data = COPY_SF_PTR from_sf debug_data
                               sym_read sym_read_update Debug_sym_read;
                debug_data = COPY_SF_PTR from_sf debug_data
                               sym_finish sym_finish_update Debug_sym_finish;
                debug_data = COPY_SF_PTR from_sf debug_data
                               sym_offsets sym_offsets_update Debug_sym_offsets;
                debug_data = COPY_SF_PTR from_sf debug_data
                               sym_segments sym_segments_update Debug_sym_segments;
                debug_data = COPY_SF_PTR from_sf debug_data
                               sym_read_linetable sym_read_linetable_update
                               Debug_sym_read_linetable;
                debug_data = COPY_SF_PTR from_sf debug_data
                               sym_relocate sym_relocate_update Debug_sym_relocate;
                debug_data =
                  (if sym_probe_fns from_sf \<noteq> None
                   then debug_data\<lparr>debug_sf :=
                          (debug_sf debug_data)\<lparr>sym_probe_fns := Some debug_sym_probe_fns\<rparr>\<rparr>
                   else debug_data);
                debug_data = debug_data\<lparr>real_sf := real_sf'\<rparr>
            in (case key_set st objfile debug_data of
                  Inl e \<Rightarrow> Inl e
                | Inr st \<Rightarrow> Inr (set_sf st objfile (Debug_sf objfile))))"

definition uninstall_symfile_debug_logging :: "'w gdb \<Rightarrow> nat \<Rightarrow> failure + 'w gdb" where
  "uninstall_symfile_debug_logging st objfile =
     (if \<not> symfile_debug_installed st objfile
      then Inl (Internal_error ''symfile_debug_installed (objfile)'')
      else
        case key_get st objfile of
          None \<Rightarrow> Inl Memory_fault
        | Some debug_data \<Rightarrow>
            let st = set_sf st objfile (real_sf debug_data)
            in key_clear st objfile)"

subsection \<open>Replacing the table of an objfile\<close>

definition objfile_set_sym_fns :: "'w gdb \<Rightarrow> nat \<Rightarrow> sf_ptr \<Rightarrow> failure + 'w gdb" where
  "objfile_set_sym_fns st objfile new_sf =
     (case (if symfile_debug_installed st objfile
            then (if \<not> debug_symfile st then Inl (Internal_error ''debug_symfile'')
                  else uninstall_symfile_debug_logging st objfile)
            else Inr st) of
        Inl e \<Rightarrow> Inl e
      | Inr st \<Rightarrow>
          let st = set_sf st objfile new_sf
          in if debug_symfile st then install_symfile_debug_logging st objfile else Inr st)"

subsection \<open>The handler of the setting\<close>

text \<open>The body of the two nested loops of \<open>set_debug_symfile\<close>, for one objfile.\<close>

definition set_debug_symfile_body :: "'w gdb \<Rightarrow> nat \<Rightarrow> failure + 'w gdb" where
  "set_debug_symfile_body st objfile =
     (if debug_symfile st
      then (if \<not> symfile_debug_installed st objfile
            then install_symfile_debug_logging st objfile else Inr st)
      else (if symfile_debug_installed st objfile
            then uninstall_symfile_debug_logging st objfile else Inr st))"

fun for_objfiles :: "'w gdb \<Rightarrow> nat list \<Rightarrow> failure + 'w gdb" where
  "for_objfiles st [] = Inr st"
| "for_objfiles st (objfile # rest) =
     (case set_debug_symfile_body st objfile of
        Inl e \<Rightarrow> Inl e
      | Inr st \<Rightarrow> for_objfiles st rest)"

fun for_program_spaces :: "'w gdb \<Rightarrow> nat list list \<Rightarrow> failure + 'w gdb" where
  "for_program_spaces st [] = Inr st"
| "for_program_spaces st (pspace # rest) =
     (case for_objfiles st pspace of
        Inl e \<Rightarrow> Inl e
      | Inr st \<Rightarrow> for_program_spaces st rest)"

definition set_debug_symfile :: "'w gdb \<Rightarrow> failure + 'w gdb" where
  "set_debug_symfile st = for_program_spaces st (program_spaces st)"

subsection \<open>Calling through function pointers\<close>

text \<open>A function of a backend runs on its own part of the state.\<close>

definition run_backend :: "('a, 'w) extern \<Rightarrow> 'w gdb \<Rightarrow> 'a outcome \<times> 'w gdb" where
  "run_backend f st = (case f (world st) of (r, w) \<Rightarrow> (r, st\<lparr>world := w\<rparr>))"

text \<open>
  Sequencing: what follows a call runs only if the call returns; a throw or a failure
  propagates with the state reached.
\<close>

definition then_do ::
  "'a outcome \<times> 's \<Rightarrow> ('a \<Rightarrow> 's \<Rightarrow> 'b outcome \<times> 's) \<Rightarrow> 'b outcome \<times> 's" where
  "then_do m k =
     (case m of
        (Returns v, s) \<Rightarrow> k v s
      | (Throws e, s) \<Rightarrow> (Throws e, s)
      | (Aborts f, s) \<Rightarrow> (Aborts f, s))"

text \<open>
  The expression \<open>debug_data->real_sf->name\<close>: nothing is read when \<open>debug_data\<close> is null
  or \<open>real_sf\<close> cannot be read, and the member itself may be null.
\<close>

definition real_slot ::
  "'w gdb \<Rightarrow> 'w debug_sym_fns_data option \<Rightarrow> ('w sym_fns \<Rightarrow> 'f option) \<Rightarrow> 'f option" where
  "real_slot st debug_data name =
     (case debug_data of
        None \<Rightarrow> None
      | Some d \<Rightarrow> (case deref_sf st (real_sf d) of None \<Rightarrow> None | Some t \<Rightarrow> name t))"

text \<open>The expression \<open>objfile->sf->name\<close>, as the callers of a slot evaluate it.\<close>

definition active_slot ::
  "'w gdb \<Rightarrow> nat \<Rightarrow> ('w sym_fns \<Rightarrow> 'f option) \<Rightarrow> 'f option" where
  "active_slot st objfile name =
     (case deref_sf st (sf (objfile_at st objfile)) of None \<Rightarrow> None | Some t \<Rightarrow> name t)"

subsection \<open>The proxies\<close>

text \<open>
  A proxy forwards through a function pointer, which may be a proxy again. The parameter
  \<open>invoke\<close> of each proxy is the call through a function pointer of its type; it is
  supplied by the \<open>call_\<close> functions below.
\<close>

definition debug_sym_get_probes ::
  "('w get_probes_fn \<Rightarrow> nat \<Rightarrow> 'w gdb \<Rightarrow> probe_vector outcome \<times> 'w gdb)
   \<Rightarrow> 'w gdb \<Rightarrow> nat \<Rightarrow> probe_vector outcome \<times> 'w gdb" where
  "debug_sym_get_probes invoke st objfile =
     (let debug_data = key_get st objfile in
      case real_slot st debug_data sym_probe_fns of
        None \<Rightarrow> (Aborts Memory_fault, st)
      | Some probe_fns \<Rightarrow>
          (case sym_get_probes probe_fns of
             None \<Rightarrow> (Aborts Memory_fault, st)
           | Some f \<Rightarrow>
               then_do (invoke f objfile st)
                 (\<lambda>retval st.
                    (Returns retval,
                     fprintf_filtered st ''probes->sym_get_probes (%s) = %s''
                       [Objfile_debug_name objfile,
                        Host_address_to_string (vector_data retval)]))))"

definition debug_sym_new_init ::
  "('w objfile_fn \<Rightarrow> nat \<Rightarrow> 'w gdb \<Rightarrow> unit outcome \<times> 'w gdb)
   \<Rightarrow> 'w gdb \<Rightarrow> nat \<Rightarrow> unit outcome \<times> 'w gdb" where
  "debug_sym_new_init invoke st objfile =
     (let debug_data = key_get st objfile;
          st = fprintf_filtered st ''sf->sym_new_init (%s)'' [Objfile_debug_name objfile]
      in case real_slot st debug_data sym_new_init of
           None \<Rightarrow> (Aborts Memory_fault, st)
         | Some f \<Rightarrow> invoke f objfile st)"

definition debug_sym_init ::
  "('w objfile_fn \<Rightarrow> nat \<Rightarrow> 'w gdb \<Rightarrow> unit outcome \<times> 'w gdb)
   \<Rightarrow> 'w gdb \<Rightarrow> nat \<Rightarrow> unit outcome \<times> 'w gdb" where
  "debug_sym_init invoke st objfile =
     (let debug_data = key_get st objfile;
          st = fprintf_filtered st ''sf->sym_init (%s)'' [Objfile_debug_name objfile]
      in case real_slot st debug_data sym_init of
           None \<Rightarrow> (Aborts Memory_fault, st)
         | Some f \<Rightarrow> invoke f objfile st)"

definition debug_sym_read ::
  "('w read_fn \<Rightarrow> nat \<Rightarrow> 32 word \<Rightarrow> 'w gdb \<Rightarrow> unit outcome \<times> 'w gdb)
   \<Rightarrow> 'w gdb \<Rightarrow> nat \<Rightarrow> 32 word \<Rightarrow> unit outcome \<times> 'w gdb" where
  "debug_sym_read invoke st objfile symfile_flags =
     (let debug_data = key_get st objfile;
          st = fprintf_filtered st ''sf->sym_read (%s, 0x%x)''
                 [Objfile_debug_name objfile, Unsigned_arg (unat symfile_flags)]
      in case real_slot st debug_data sym_read of
           None \<Rightarrow> (Aborts Memory_fault, st)
         | Some f \<Rightarrow> invoke f objfile symfile_flags st)"

definition debug_sym_finish ::
  "('w objfile_fn \<Rightarrow> nat \<Rightarrow> 'w gdb \<Rightarrow> unit outcome \<times> 'w gdb)
   \<Rightarrow> 'w gdb \<Rightarrow> nat \<Rightarrow> unit outcome \<times> 'w gdb" where
  "debug_sym_finish invoke st objfile =
     (let debug_data = key_get st objfile;
          st = fprintf_filtered st ''sf->sym_finish (%s)'' [Objfile_debug_name objfile]
      in case real_slot st debug_data sym_finish of
           None \<Rightarrow> (Aborts Memory_fault, st)
         | Some f \<Rightarrow> invoke f objfile st)"

definition debug_sym_offsets ::
  "('w offsets_fn \<Rightarrow> nat \<Rightarrow> nat \<Rightarrow> 'w gdb \<Rightarrow> unit outcome \<times> 'w gdb)
   \<Rightarrow> 'w gdb \<Rightarrow> nat \<Rightarrow> nat \<Rightarrow> unit outcome \<times> 'w gdb" where
  "debug_sym_offsets invoke st objfile info =
     (let debug_data = key_get st objfile;
          st = fprintf_filtered st ''sf->sym_offsets (%s, %s)''
                 [Objfile_debug_name objfile, Host_address_to_string info]
      in case real_slot st debug_data sym_offsets of
           None \<Rightarrow> (Aborts Memory_fault, st)
         | Some f \<Rightarrow> invoke f objfile info st)"

definition debug_sym_segments :: "'w gdb \<Rightarrow> nat \<Rightarrow> nat option outcome \<times> 'w gdb" where
  "debug_sym_segments st abfd = (Aborts (Internal_error ''debug_sym_segments called''), st)"

definition debug_sym_read_linetable ::
  "('w objfile_fn \<Rightarrow> nat \<Rightarrow> 'w gdb \<Rightarrow> unit outcome \<times> 'w gdb)
   \<Rightarrow> 'w gdb \<Rightarrow> nat \<Rightarrow> unit outcome \<times> 'w gdb" where
  "debug_sym_read_linetable invoke st objfile =
     (let debug_data = key_get st objfile;
          st = fprintf_filtered st ''sf->sym_read_linetable (%s)''
                 [Objfile_debug_name objfile]
      in case real_slot st debug_data sym_read_linetable of
           None \<Rightarrow> (Aborts Memory_fault, st)
         | Some f \<Rightarrow> invoke f objfile st)"

definition debug_sym_relocate ::
  "('w relocate_fn \<Rightarrow> nat \<Rightarrow> nat \<Rightarrow> nat \<Rightarrow> 'w gdb \<Rightarrow> nat outcome \<times> 'w gdb)
   \<Rightarrow> 'w gdb \<Rightarrow> nat \<Rightarrow> nat \<Rightarrow> nat \<Rightarrow> nat outcome \<times> 'w gdb" where
  "debug_sym_relocate invoke st objfile sectp buf =
     (let debug_data = key_get st objfile in
      case real_slot st debug_data sym_relocate of
        None \<Rightarrow> (Aborts Memory_fault, st)
      | Some f \<Rightarrow>
          then_do (invoke f objfile sectp buf st)
            (\<lambda>retval st.
               (Returns retval,
                fprintf_filtered st ''sf->sym_relocate (%s, %s, %s) = %s''
                  [Objfile_debug_name objfile, Host_address_to_string sectp,
                   Host_address_to_string buf, Host_address_to_string retval])))"

text \<open>
  The call through a function pointer. A proxy forwards through a pointer that may hold
  a proxy again, and so on without end; \<open>depth\<close> is the number of proxy frames the stack
  still holds. A function of a backend always runs, a proxy needs a frame, and the pointer
  it forwards through is called with one frame less.
\<close>

primrec call_objfile_fn ::
  "nat \<Rightarrow> 'w objfile_fn \<Rightarrow> nat \<Rightarrow> 'w gdb \<Rightarrow> unit outcome \<times> 'w gdb" where
  "call_objfile_fn 0 f objfile st =
     (case f of
        Backend_objfile_fn g \<Rightarrow> run_backend (g objfile) st
      | _ \<Rightarrow> (Aborts Stack_overflow, st))"
| "call_objfile_fn (Suc depth) f objfile st =
     (case f of
        Backend_objfile_fn g \<Rightarrow> run_backend (g objfile) st
      | Debug_sym_new_init \<Rightarrow> debug_sym_new_init (call_objfile_fn depth) st objfile
      | Debug_sym_init \<Rightarrow> debug_sym_init (call_objfile_fn depth) st objfile
      | Debug_sym_finish \<Rightarrow> debug_sym_finish (call_objfile_fn depth) st objfile
      | Debug_sym_read_linetable \<Rightarrow>
          debug_sym_read_linetable (call_objfile_fn depth) st objfile)"

primrec call_read_fn ::
  "nat \<Rightarrow> 'w read_fn \<Rightarrow> nat \<Rightarrow> 32 word \<Rightarrow> 'w gdb \<Rightarrow> unit outcome \<times> 'w gdb" where
  "call_read_fn 0 f objfile symfile_flags st =
     (case f of
        Backend_read_fn g \<Rightarrow> run_backend (g objfile symfile_flags) st
      | Debug_sym_read \<Rightarrow> (Aborts Stack_overflow, st))"
| "call_read_fn (Suc depth) f objfile symfile_flags st =
     (case f of
        Backend_read_fn g \<Rightarrow> run_backend (g objfile symfile_flags) st
      | Debug_sym_read \<Rightarrow> debug_sym_read (call_read_fn depth) st objfile symfile_flags)"

primrec call_offsets_fn ::
  "nat \<Rightarrow> 'w offsets_fn \<Rightarrow> nat \<Rightarrow> nat \<Rightarrow> 'w gdb \<Rightarrow> unit outcome \<times> 'w gdb" where
  "call_offsets_fn 0 f objfile info st =
     (case f of
        Backend_offsets_fn g \<Rightarrow> run_backend (g objfile info) st
      | Debug_sym_offsets \<Rightarrow> (Aborts Stack_overflow, st))"
| "call_offsets_fn (Suc depth) f objfile info st =
     (case f of
        Backend_offsets_fn g \<Rightarrow> run_backend (g objfile info) st
      | Debug_sym_offsets \<Rightarrow> debug_sym_offsets (call_offsets_fn depth) st objfile info)"

text \<open>\<open>debug_sym_segments\<close> forwards through no pointer, so its call takes no depth.\<close>

definition call_segments_fn ::
  "'w segments_fn \<Rightarrow> nat \<Rightarrow> 'w gdb \<Rightarrow> nat option outcome \<times> 'w gdb" where
  "call_segments_fn f abfd st =
     (case f of
        Backend_segments_fn g \<Rightarrow> run_backend (g abfd) st
      | Debug_sym_segments \<Rightarrow> debug_sym_segments st abfd)"

primrec call_relocate_fn ::
  "nat \<Rightarrow> 'w relocate_fn \<Rightarrow> nat \<Rightarrow> nat \<Rightarrow> nat \<Rightarrow> 'w gdb \<Rightarrow> nat outcome \<times> 'w gdb" where
  "call_relocate_fn 0 f objfile sectp buf st =
     (case f of
        Backend_relocate_fn g \<Rightarrow> run_backend (g objfile sectp buf) st
      | Debug_sym_relocate \<Rightarrow> (Aborts Stack_overflow, st))"
| "call_relocate_fn (Suc depth) f objfile sectp buf st =
     (case f of
        Backend_relocate_fn g \<Rightarrow> run_backend (g objfile sectp buf) st
      | Debug_sym_relocate \<Rightarrow>
          debug_sym_relocate (call_relocate_fn depth) st objfile sectp buf)"

primrec call_get_probes_fn ::
  "nat \<Rightarrow> 'w get_probes_fn \<Rightarrow> nat \<Rightarrow> 'w gdb \<Rightarrow> probe_vector outcome \<times> 'w gdb" where
  "call_get_probes_fn 0 f objfile st =
     (case f of
        Backend_get_probes_fn g \<Rightarrow> run_backend (g objfile) st
      | Debug_sym_get_probes \<Rightarrow> (Aborts Stack_overflow, st))"
| "call_get_probes_fn (Suc depth) f objfile st =
     (case f of
        Backend_get_probes_fn g \<Rightarrow> run_backend (g objfile) st
      | Debug_sym_get_probes \<Rightarrow> debug_sym_get_probes (call_get_probes_fn depth) st objfile)"

subsection \<open>Calls through the table of an objfile\<close>

text \<open>
  The calls \<open>objfile->sf->sym_read (objfile, symfile_flags)\<close> and the like, as the rest
  of the debugger makes them; calling through a null pointer is a memory fault.
\<close>

definition invoke_sym_new_init :: "nat \<Rightarrow> 'w gdb \<Rightarrow> nat \<Rightarrow> unit outcome \<times> 'w gdb" where
  "invoke_sym_new_init depth st objfile =
     (case active_slot st objfile sym_new_init of
        None \<Rightarrow> (Aborts Memory_fault, st)
      | Some f \<Rightarrow> call_objfile_fn depth f objfile st)"

definition invoke_sym_init :: "nat \<Rightarrow> 'w gdb \<Rightarrow> nat \<Rightarrow> unit outcome \<times> 'w gdb" where
  "invoke_sym_init depth st objfile =
     (case active_slot st objfile sym_init of
        None \<Rightarrow> (Aborts Memory_fault, st)
      | Some f \<Rightarrow> call_objfile_fn depth f objfile st)"

definition invoke_sym_read ::
  "nat \<Rightarrow> 'w gdb \<Rightarrow> nat \<Rightarrow> 32 word \<Rightarrow> unit outcome \<times> 'w gdb" where
  "invoke_sym_read depth st objfile symfile_flags =
     (case active_slot st objfile sym_read of
        None \<Rightarrow> (Aborts Memory_fault, st)
      | Some f \<Rightarrow> call_read_fn depth f objfile symfile_flags st)"

definition invoke_sym_finish :: "nat \<Rightarrow> 'w gdb \<Rightarrow> nat \<Rightarrow> unit outcome \<times> 'w gdb" where
  "invoke_sym_finish depth st objfile =
     (case active_slot st objfile sym_finish of
        None \<Rightarrow> (Aborts Memory_fault, st)
      | Some f \<Rightarrow> call_objfile_fn depth f objfile st)"

definition invoke_sym_offsets ::
  "nat \<Rightarrow> 'w gdb \<Rightarrow> nat \<Rightarrow> nat \<Rightarrow> unit outcome \<times> 'w gdb" where
  "invoke_sym_offsets depth st objfile info =
     (case active_slot st objfile sym_offsets of
        None \<Rightarrow> (Aborts Memory_fault, st)
      | Some f \<Rightarrow> call_offsets_fn depth f objfile info st)"

definition invoke_sym_segments ::
  "'w gdb \<Rightarrow> nat \<Rightarrow> nat \<Rightarrow> nat option outcome \<times> 'w gdb" where
  "invoke_sym_segments st objfile abfd =
     (case active_slot st objfile sym_segments of
        None \<Rightarrow> (Aborts Memory_fault, st)
      | Some f \<Rightarrow> call_segments_fn f abfd st)"

definition invoke_sym_read_linetable ::
  "nat \<Rightarrow> 'w gdb \<Rightarrow> nat \<Rightarrow> unit outcome \<times> 'w gdb" where
  "invoke_sym_read_linetable depth st objfile =
     (case active_slot st objfile sym_read_linetable of
        None \<Rightarrow> (Aborts Memory_fault, st)
      | Some f \<Rightarrow> call_objfile_fn depth f objfile st)"

definition invoke_sym_relocate ::
  "nat \<Rightarrow> 'w gdb \<Rightarrow> nat \<Rightarrow> nat \<Rightarrow> nat \<Rightarrow> nat outcome \<times> 'w gdb" where
  "invoke_sym_relocate depth st objfile sectp buf =
     (case active_slot st objfile sym_relocate of
        None \<Rightarrow> (Aborts Memory_fault, st)
      | Some f \<Rightarrow> call_relocate_fn depth f objfile sectp buf st)"

definition invoke_sym_get_probes ::
  "nat \<Rightarrow> 'w gdb \<Rightarrow> nat \<Rightarrow> probe_vector outcome \<times> 'w gdb" where
  "invoke_sym_get_probes depth st objfile =
     (case active_slot st objfile sym_probe_fns of
        None \<Rightarrow> (Aborts Memory_fault, st)
      | Some probe_fns \<Rightarrow>
          (case sym_get_probes probe_fns of
             None \<Rightarrow> (Aborts Memory_fault, st)
           | Some f \<Rightarrow> call_get_probes_fn depth f objfile st))"

subsection \<open>The symbol queries of an objfile\<close>

text \<open>
  The methods of \<open>objfile\<close> that forward to \<open>qf\<close>, \<open>objfile::dump\<close> being \<open>objfile_dump\<close>
  and so on; \<open>this\<close> is the objfile. A symtab or a
  compunit symtab is returned by address, \<open>None\<close> being \<open>nullptr\<close>;
  \<open>compunit_primary_filetab\<close> belongs to the rest of the debugger and is passed in where
  a method prints its result. \<open>OBJF_PSYMTABS_READ\<close> is a constant of objfile-flags.h,
  passed in as well.
\<close>

definition print_if_debug :: "'w gdb \<Rightarrow> string \<Rightarrow> printf_arg list \<Rightarrow> 'w gdb" where
  "print_if_debug st format args =
     (if debug_symfile st then fprintf_filtered st format args else st)"

definition objfile_has_partial_symbols :: "32 word \<Rightarrow> 'w gdb \<Rightarrow> nat \<Rightarrow> bool outcome \<times> 'w gdb" where
  "objfile_has_partial_symbols OBJF_PSYMTABS_READ st this =
     (let finish = (\<lambda>retval st.
            (Returns retval,
             print_if_debug st ''qf->has_symbols (%s) = %d''
               [Objfile_debug_name this, Int_arg (if retval then 1 else 0)]))
      in case qf (objfile_at st this) of
           None \<Rightarrow> finish False st
         | Some q \<Rightarrow>
             if and (flags (objfile_at st this)) OBJF_PSYMTABS_READ = 0
             then then_do (run_backend (can_lazily_read_symbols q) st)
                    (\<lambda>lazy st.
                       if lazy then finish True st
                       else then_do (run_backend (has_symbols q this) st) finish)
             else then_do (run_backend (has_symbols q this) st) finish)"

definition objfile_find_last_source_symtab :: "'w gdb \<Rightarrow> nat \<Rightarrow> nat option outcome \<times> 'w gdb" where
  "objfile_find_last_source_symtab st this =
     (let st = print_if_debug st ''qf->find_last_source_symtab (%s)''
                 [Objfile_debug_name this]
      in then_do
           (case qf (objfile_at st this) of
              None \<Rightarrow> (Returns None, st)
            | Some q \<Rightarrow> run_backend (find_last_source_symtab q this) st)
           (\<lambda>retval st.
              (Returns retval,
               print_if_debug st ''qf->find_last_source_symtab (...) = %s''
                 [case retval of None \<Rightarrow> String_arg ''NULL''
                  | Some symtab \<Rightarrow> Debug_symtab_name symtab])))"

definition objfile_forget_cached_source_info :: "'w gdb \<Rightarrow> nat \<Rightarrow> unit outcome \<times> 'w gdb" where
  "objfile_forget_cached_source_info st this =
     (let st = print_if_debug st ''qf->forget_cached_source_info (%s)''
                 [Objfile_debug_name this]
      in case qf (objfile_at st this) of
           None \<Rightarrow> (Returns (), st)
         | Some q \<Rightarrow> run_backend (forget_cached_source_info q this) st)"

definition objfile_map_symtabs_matching_filename ::
  "'w gdb \<Rightarrow> nat \<Rightarrow> string \<Rightarrow> string option \<Rightarrow> nat \<Rightarrow> bool outcome \<times> 'w gdb" where
  \<open>objfile_map_symtabs_matching_filename st this name real_path callback =
     (let st = print_if_debug st ''qf->map_symtabs_matching_filename (%s, "%s", "%s", %s)''
                 [Objfile_debug_name this, String_arg name,
                  (case real_path of None \<Rightarrow> Null_arg | Some path \<Rightarrow> String_arg path),
                  Host_address_to_string callback]
      in then_do
           (case qf (objfile_at st this) of
              None \<Rightarrow> (Returns False, st)
            | Some q \<Rightarrow>
                run_backend (map_symtabs_matching_filename q this name real_path callback) st)
           (\<lambda>retval st.
              (Returns retval,
               print_if_debug st ''qf->map_symtabs_matching_filename (...) = %d''
                 [Int_arg (if retval then 1 else 0)])))\<close>

definition objfile_lookup_symbol ::
  "(nat \<Rightarrow> nat) \<Rightarrow> 'w gdb \<Rightarrow> nat \<Rightarrow> int \<Rightarrow> string \<Rightarrow> nat \<Rightarrow> nat option outcome \<times> 'w gdb" where
  \<open>objfile_lookup_symbol compunit_primary_filetab st this kind name domain =
     (let st = print_if_debug st ''qf->lookup_symbol (%s, %d, "%s", %s)''
                 [Objfile_debug_name this, Int_arg kind, String_arg name, Domain_name domain]
      in then_do
           (case qf (objfile_at st this) of
              None \<Rightarrow> (Returns None, st)
            | Some q \<Rightarrow> run_backend (lookup_symbol q this kind name domain) st)
           (\<lambda>retval st.
              (Returns retval,
               print_if_debug st ''qf->lookup_symbol (...) = %s''
                 [case retval of None \<Rightarrow> String_arg ''NULL''
                  | Some cust \<Rightarrow> Debug_symtab_name (compunit_primary_filetab cust)])))\<close>

definition objfile_print_stats :: "'w gdb \<Rightarrow> nat \<Rightarrow> bool \<Rightarrow> unit outcome \<times> 'w gdb" where
  "objfile_print_stats st this print_bcache =
     (let st = print_if_debug st ''qf->print_stats (%s, %d)''
                 [Objfile_debug_name this, Int_arg (if print_bcache then 1 else 0)]
      in case qf (objfile_at st this) of
           None \<Rightarrow> (Returns (), st)
         | Some q \<Rightarrow> run_backend (print_stats q this print_bcache) st)"

definition objfile_dump :: "'w gdb \<Rightarrow> nat \<Rightarrow> unit outcome \<times> 'w gdb" where
  "objfile_dump st this =
     (let st = print_if_debug st ''qf->dump (%s)'' [Objfile_debug_name this]
      in case qf (objfile_at st this) of
           None \<Rightarrow> (Returns (), st)
         | Some q \<Rightarrow> run_backend (dump q this) st)"

definition objfile_expand_symtabs_for_function ::
  "'w gdb \<Rightarrow> nat \<Rightarrow> string \<Rightarrow> unit outcome \<times> 'w gdb" where
  \<open>objfile_expand_symtabs_for_function st this func_name =
     (let st = print_if_debug st ''qf->expand_symtabs_for_function (%s, "%s")''
                 [Objfile_debug_name this, String_arg func_name]
      in case qf (objfile_at st this) of
           None \<Rightarrow> (Returns (), st)
         | Some q \<Rightarrow> run_backend (expand_symtabs_for_function q this func_name) st)\<close>

definition objfile_expand_all_symtabs :: "'w gdb \<Rightarrow> nat \<Rightarrow> unit outcome \<times> 'w gdb" where
  "objfile_expand_all_symtabs st this =
     (let st = print_if_debug st ''qf->expand_all_symtabs (%s)'' [Objfile_debug_name this]
      in case qf (objfile_at st this) of
           None \<Rightarrow> (Returns (), st)
         | Some q \<Rightarrow> run_backend (expand_all_symtabs q this) st)"

definition objfile_expand_symtabs_with_fullname ::
  "'w gdb \<Rightarrow> nat \<Rightarrow> string \<Rightarrow> unit outcome \<times> 'w gdb" where
  \<open>objfile_expand_symtabs_with_fullname st this fullname =
     (let st = print_if_debug st ''qf->expand_symtabs_with_fullname (%s, "%s")''
                 [Objfile_debug_name this, String_arg fullname]
      in case qf (objfile_at st this) of
           None \<Rightarrow> (Returns (), st)
         | Some q \<Rightarrow> run_backend (expand_symtabs_with_fullname q this fullname) st)\<close>

definition objfile_map_matching_symbols ::
  "'w gdb \<Rightarrow> nat \<Rightarrow> nat \<Rightarrow> nat \<Rightarrow> int \<Rightarrow> nat \<Rightarrow> nat \<Rightarrow> unit outcome \<times> 'w gdb" where
  "objfile_map_matching_symbols st this name domain global callback ordered_compare =
     (let st = print_if_debug st ''qf->map_matching_symbols (%s, %s, %d, %s)''
                 [Objfile_debug_name this, Domain_name domain, Int_arg global,
                  Host_address_to_string ordered_compare]
      in case qf (objfile_at st this) of
           None \<Rightarrow> (Returns (), st)
         | Some q \<Rightarrow>
             run_backend
               (map_matching_symbols q this name domain global callback ordered_compare) st)"

definition objfile_expand_symtabs_matching ::
  "'w gdb \<Rightarrow> nat \<Rightarrow> nat \<Rightarrow> nat \<Rightarrow> nat \<Rightarrow> nat \<Rightarrow> nat \<Rightarrow> unit outcome \<times> 'w gdb" where
  "objfile_expand_symtabs_matching st this file_matcher lookup_name symbol_matcher
     expansion_notify kind =
     (let st = print_if_debug st ''qf->expand_symtabs_matching (%s, %s, %s, %s, %s)''
                 [Objfile_debug_name this, Host_address_to_string file_matcher,
                  Host_address_to_string symbol_matcher,
                  Host_address_to_string expansion_notify, Search_domain_name kind]
      in case qf (objfile_at st this) of
           None \<Rightarrow> (Returns (), st)
         | Some q \<Rightarrow>
             run_backend
               (expand_symtabs_matching q this file_matcher lookup_name symbol_matcher
                  expansion_notify kind) st)"

definition objfile_find_pc_sect_compunit_symtab ::
  "(nat \<Rightarrow> nat) \<Rightarrow> 'w gdb \<Rightarrow> nat \<Rightarrow> nat \<Rightarrow> nat \<Rightarrow> nat \<Rightarrow> int
   \<Rightarrow> nat option outcome \<times> 'w gdb" where
  "objfile_find_pc_sect_compunit_symtab compunit_primary_filetab st this msymbol pc section
     warn_if_readin =
     (let st = print_if_debug st ''qf->find_pc_sect_compunit_symtab (%s, %s, %s, %s, %d)''
                 [Objfile_debug_name this, Host_address_to_string msymbol, Hex_string pc,
                  Host_address_to_string section, Int_arg warn_if_readin]
      in then_do
           (case qf (objfile_at st this) of
              None \<Rightarrow> (Returns None, st)
            | Some q \<Rightarrow>
                run_backend
                  (find_pc_sect_compunit_symtab q this msymbol pc section warn_if_readin) st)
           (\<lambda>retval st.
              (Returns retval,
               print_if_debug st ''qf->find_pc_sect_compunit_symtab (...) = %s''
                 [case retval of None \<Rightarrow> String_arg ''NULL''
                  | Some cust \<Rightarrow> Debug_symtab_name (compunit_primary_filetab cust)])))"

definition objfile_map_symbol_filenames ::
  "'w gdb \<Rightarrow> nat \<Rightarrow> nat \<Rightarrow> nat \<Rightarrow> int \<Rightarrow> unit outcome \<times> 'w gdb" where
  "objfile_map_symbol_filenames st this fun_addr data need_fullname =
     (let st = print_if_debug st ''qf->map_symbol_filenames (%s, %s, %s, %d)''
                 [Objfile_debug_name this, Host_address_to_string fun_addr,
                  Host_address_to_string data, Int_arg need_fullname]
      in case qf (objfile_at st this) of
           None \<Rightarrow> (Returns (), st)
         | Some q \<Rightarrow> run_backend (map_symbol_filenames q this fun_addr data need_fullname) st)"

definition objfile_find_compunit_symtab_by_address ::
  "(nat \<Rightarrow> nat) \<Rightarrow> 'w gdb \<Rightarrow> nat \<Rightarrow> nat \<Rightarrow> nat option outcome \<times> 'w gdb" where
  "objfile_find_compunit_symtab_by_address compunit_primary_filetab st this address =
     (let st = print_if_debug st ''qf->find_compunit_symtab_by_address (%s, %s)''
                 [Objfile_debug_name this, Hex_string address]
      in then_do
           (case qf (objfile_at st this) of
              None \<Rightarrow> (Returns None, st)
            | Some q \<Rightarrow> run_backend (find_compunit_symtab_by_address q this address) st)
           (\<lambda>result st.
              (Returns result,
               print_if_debug st ''qf->find_compunit_symtab_by_address (...) = %s''
                 [case result of None \<Rightarrow> String_arg ''NULL''
                  | Some cust \<Rightarrow> Debug_symtab_name (compunit_primary_filetab cust)])))"

text \<open>
  \<open>symbol_found_p\<close> is the value at \<open>*symbol_found_p\<close> on entry; the second component of
  the result is the value there on return.
\<close>

definition objfile_lookup_global_symbol_language ::
  "'w gdb \<Rightarrow> nat \<Rightarrow> string \<Rightarrow> nat \<Rightarrow> bool \<Rightarrow> (language \<times> bool) outcome \<times> 'w gdb" where
  "objfile_lookup_global_symbol_language st this name domain symbol_found_p =
     (case qf (objfile_at st this) of
        Some q \<Rightarrow>
          run_backend (lookup_global_symbol_language q this name domain symbol_found_p) st
      | None \<Rightarrow> (Returns (Language_unknown, False), st))"

subsection \<open>Sample tables and states\<close>

text \<open>
  Two backend tables over a counter as the rest of the debugger. The first has
  \<open>sym_finish\<close> and \<open>sym_read_linetable\<close> absent; the functions of the second throw.
\<close>

definition sample_sym_fns :: "nat sym_fns" where
  "sample_sym_fns =
     \<lparr>sym_new_init = Some (Backend_objfile_fn (\<lambda>objfile w. (Returns (), w + 1))),
      sym_init = Some (Backend_objfile_fn (\<lambda>objfile w. (Returns (), w + 2))),
      sym_read = Some (Backend_read_fn (\<lambda>objfile symfile_flags w.
                   (Returns (), w + unat symfile_flags))),
      sym_finish = None,
      sym_offsets = Some (Backend_offsets_fn (\<lambda>objfile info w. (Returns (), w + info))),
      sym_segments = Some (Backend_segments_fn (\<lambda>abfd w. (Returns (Some abfd), w))),
      sym_read_linetable = None,
      sym_relocate = Some (Backend_relocate_fn (\<lambda>objfile sectp buf w.
                       (Returns (buf + sectp), w + 1))),
      sym_probe_fns = Some \<lparr>sym_get_probes = Some (Backend_get_probes_fn (\<lambda>objfile w.
                        (Returns \<lparr>vector_addr = 100, vector_data = 200\<rparr>, w)))\<rparr>\<rparr>"

definition throwing_sym_fns :: "nat sym_fns" where
  "throwing_sym_fns =
     \<lparr>sym_new_init = None,
      sym_init = None,
      sym_read = Some (Backend_read_fn (\<lambda>objfile symfile_flags w.
                   (Throws ''cannot read symbols'', w))),
      sym_finish = None,
      sym_offsets = None,
      sym_segments = None,
      sym_read_linetable = None,
      sym_relocate = Some (Backend_relocate_fn (\<lambda>objfile sectp buf w.
                       (Throws ''cannot relocate'', w))),
      sym_probe_fns = Some \<lparr>sym_get_probes = Some (Backend_get_probes_fn (\<lambda>objfile w.
                        (Throws ''cannot read probes'', w)))\<rparr>\<rparr>"

text \<open>
  Logging is off. Objfile 4 uses the table at address 10 (the first table), objfile 5 the
  table at address 20 (the second), and every other objfile has no table yet.
\<close>

definition sample_gdb :: "nat gdb" where
  "sample_gdb =
     \<lparr>debug_symfile = False,
      program_spaces = [[4], [5]],
      objfile_at = (\<lambda>objfile.
         \<lparr>sf = (if objfile = 4 then Static_sf 10
                else if objfile = 5 then Static_sf 20 else Null_sf),
          qf = None, flags = 0\<rparr>),
      sym_fns_at = (\<lambda>a. if a = 10 then sample_sym_fns else throwing_sym_fns),
      symfile_debug_objfile_data_key = Map.empty,
      gdb_stdlog = [],
      world = 0\<rparr>"

text \<open>The same with logging on and the proxies installed on objfiles 4 and 5.\<close>

definition sample_logging_gdb :: "nat gdb" where
  "sample_logging_gdb =
     \<lparr>debug_symfile = True,
      program_spaces = [[4], [5]],
      objfile_at = (\<lambda>objfile.
         \<lparr>sf = (if objfile = 4 then Debug_sf 4
                else if objfile = 5 then Debug_sf 5 else Null_sf),
          qf = None, flags = 0\<rparr>),
      sym_fns_at = (\<lambda>a. if a = 10 then sample_sym_fns else throwing_sym_fns),
      symfile_debug_objfile_data_key =
        [4 \<mapsto> \<lparr>real_sf = Static_sf 10,
                 debug_sf = debug_sym_fns\<lparr>sym_finish := None, sym_read_linetable := None\<rparr>\<rparr>,
         5 \<mapsto> \<lparr>real_sf = Static_sf 20,
                 debug_sf = null_sym_fns
                   \<lparr>sym_read := Some Debug_sym_read,
                    sym_relocate := Some Debug_sym_relocate,
                    sym_probe_fns := Some debug_sym_probe_fns\<rparr>\<rparr>],
      gdb_stdlog = [],
      world = 0\<rparr>"

section \<open>Properties\<close>

subsection \<open>What installing and removing do\<close>

lemma COPY_SF_PTR_slots:
  "COPY_SF_PTR T d sym_new_init sym_new_init_update f1 =
     d\<lparr>debug_sf := (debug_sf d)\<lparr>sym_new_init :=
         (if sym_new_init T = None then sym_new_init (debug_sf d) else Some f1)\<rparr>\<rparr>"
  "COPY_SF_PTR T d sym_init sym_init_update f2 =
     d\<lparr>debug_sf := (debug_sf d)\<lparr>sym_init :=
         (if sym_init T = None then sym_init (debug_sf d) else Some f2)\<rparr>\<rparr>"
  "COPY_SF_PTR T d sym_read sym_read_update f3 =
     d\<lparr>debug_sf := (debug_sf d)\<lparr>sym_read :=
         (if sym_read T = None then sym_read (debug_sf d) else Some f3)\<rparr>\<rparr>"
  "COPY_SF_PTR T d sym_finish sym_finish_update f4 =
     d\<lparr>debug_sf := (debug_sf d)\<lparr>sym_finish :=
         (if sym_finish T = None then sym_finish (debug_sf d) else Some f4)\<rparr>\<rparr>"
  "COPY_SF_PTR T d sym_offsets sym_offsets_update f5 =
     d\<lparr>debug_sf := (debug_sf d)\<lparr>sym_offsets :=
         (if sym_offsets T = None then sym_offsets (debug_sf d) else Some f5)\<rparr>\<rparr>"
  "COPY_SF_PTR T d sym_segments sym_segments_update f6 =
     d\<lparr>debug_sf := (debug_sf d)\<lparr>sym_segments :=
         (if sym_segments T = None then sym_segments (debug_sf d) else Some f6)\<rparr>\<rparr>"
  "COPY_SF_PTR T d sym_read_linetable sym_read_linetable_update f7 =
     d\<lparr>debug_sf := (debug_sf d)\<lparr>sym_read_linetable :=
         (if sym_read_linetable T = None then sym_read_linetable (debug_sf d) else Some f7)\<rparr>\<rparr>"
  "COPY_SF_PTR T d sym_relocate sym_relocate_update f8 =
     d\<lparr>debug_sf := (debug_sf d)\<lparr>sym_relocate :=
         (if sym_relocate T = None then sym_relocate (debug_sf d) else Some f8)\<rparr>\<rparr>"
  by (simp_all add: COPY_SF_PTR_def)

lemma install_result:
  assumes "\<not> symfile_debug_installed st objfile"
      and "deref_sf st (sf (objfile_at st objfile)) = Some T"
  shows "install_symfile_debug_logging st objfile =
           Inr (set_sf
                  (st\<lparr>symfile_debug_objfile_data_key :=
                        (symfile_debug_objfile_data_key st)(objfile \<mapsto>
                          \<lparr>real_sf = sf (objfile_at st objfile),
                           debug_sf =
                             \<lparr>sym_new_init =
                                (if sym_new_init T = None then None else Some Debug_sym_new_init),
                              sym_init =
                                (if sym_init T = None then None else Some Debug_sym_init),
                              sym_read =
                                (if sym_read T = None then None else Some Debug_sym_read),
                              sym_finish =
                                (if sym_finish T = None then None else Some Debug_sym_finish),
                              sym_offsets =
                                (if sym_offsets T = None then None else Some Debug_sym_offsets),
                              sym_segments =
                                (if sym_segments T = None then None
                                 else Some Debug_sym_segments),
                              sym_read_linetable =
                                (if sym_read_linetable T = None then None
                                 else Some Debug_sym_read_linetable),
                              sym_relocate =
                                (if sym_relocate T = None then None
                                 else Some Debug_sym_relocate),
                              sym_probe_fns =
                                (if sym_probe_fns T = None then None
                                 else Some debug_sym_probe_fns)\<rparr>\<rparr>)\<rparr>)
                  objfile (Debug_sf objfile))"
proof -
  have no_entry: "symfile_debug_objfile_data_key st objfile = None"
    using assms
    by (cases "sf (objfile_at st objfile)")
       (auto simp: symfile_debug_installed_def key_get_def deref_sf_def)
  show ?thesis
    using assms(2) no_entry
    by (cases "sym_probe_fns T")
       (simp_all add: install_symfile_debug_logging_def assms(1) Let_def key_set_def
                  COPY_SF_PTR_slots null_sym_fns_def split del: if_split cong: if_cong)
qed

lemma install_fails_when_installed:
  "symfile_debug_installed st objfile \<Longrightarrow>
   install_symfile_debug_logging st objfile =
     Inl (Internal_error ''!symfile_debug_installed (objfile)'')"
  by (simp add: install_symfile_debug_logging_def)

lemma install_unreadable:
  "\<not> symfile_debug_installed st objfile \<Longrightarrow>
   deref_sf st (sf (objfile_at st objfile)) = None \<Longrightarrow>
   install_symfile_debug_logging st objfile = Inl Memory_fault"
  by (simp add: install_symfile_debug_logging_def)

lemma uninstall_result:
  assumes "symfile_debug_installed st objfile"
  shows "\<exists>d. key_get st objfile = Some d
           \<and> uninstall_symfile_debug_logging st objfile =
               Inr ((set_sf st objfile (real_sf d))\<lparr>symfile_debug_objfile_data_key :=
                      (symfile_debug_objfile_data_key st)(objfile := None)\<rparr>)"
  using assms
  by (auto simp: uninstall_symfile_debug_logging_def symfile_debug_installed_def
                 key_get_def key_clear_def set_sf_def)

lemma uninstall_fails_when_absent:
  "\<not> symfile_debug_installed st objfile \<Longrightarrow>
   uninstall_symfile_debug_logging st objfile =
     Inl (Internal_error ''symfile_debug_installed (objfile)'')"
  by (simp add: uninstall_symfile_debug_logging_def)

lemma set_sf_simps:
  "objfile_at (set_sf st objfile p) = (objfile_at st)(objfile := (objfile_at st objfile)\<lparr>sf := p\<rparr>)"
  "symfile_debug_objfile_data_key (set_sf st objfile p) = symfile_debug_objfile_data_key st"
  "debug_symfile (set_sf st objfile p) = debug_symfile st"
  "sym_fns_at (set_sf st objfile p) = sym_fns_at st"
  "gdb_stdlog (set_sf st objfile p) = gdb_stdlog st"
  "world (set_sf st objfile p) = world st"
  "program_spaces (set_sf st objfile p) = program_spaces st"
  by (simp_all add: set_sf_def)

subsection \<open>Absent slots stay absent\<close>

text \<open>
  C1. Whatever table \<open>T\<close> the objfile uses when the proxies are installed, installing
  succeeds and the table the objfile uses afterwards is the \<open>debug_sf\<close> of its new store
  entry, in which each of \<open>sym_new_init\<close>, \<open>sym_init\<close>, \<open>sym_read\<close>, \<open>sym_finish\<close>,
  \<open>sym_offsets\<close>, \<open>sym_segments\<close>, \<open>sym_read_linetable\<close> and \<open>sym_relocate\<close> holds its own
  proxy if the slot is populated in \<open>T\<close> and is null if it is null in \<open>T\<close>, and
  \<open>sym_probe_fns\<close> is the proxy probe table if \<open>T\<close> has a probe table and null if not.
\<close>

theorem install_preserves_absence:
  assumes "\<not> symfile_debug_installed st objfile"
      and "deref_sf st (sf (objfile_at st objfile)) = Some T"
  shows "\<exists>st' d. install_symfile_debug_logging st objfile = Inr st'
           \<and> key_get st' objfile = Some d
           \<and> deref_sf st' (sf (objfile_at st' objfile)) = Some (debug_sf d)
           \<and> sym_new_init (debug_sf d) =
               (if sym_new_init T = None then None else Some Debug_sym_new_init)
           \<and> sym_init (debug_sf d) =
               (if sym_init T = None then None else Some Debug_sym_init)
           \<and> sym_read (debug_sf d) =
               (if sym_read T = None then None else Some Debug_sym_read)
           \<and> sym_finish (debug_sf d) =
               (if sym_finish T = None then None else Some Debug_sym_finish)
           \<and> sym_offsets (debug_sf d) =
               (if sym_offsets T = None then None else Some Debug_sym_offsets)
           \<and> sym_segments (debug_sf d) =
               (if sym_segments T = None then None else Some Debug_sym_segments)
           \<and> sym_read_linetable (debug_sf d) =
               (if sym_read_linetable T = None then None else Some Debug_sym_read_linetable)
           \<and> sym_relocate (debug_sf d) =
               (if sym_relocate T = None then None else Some Debug_sym_relocate)
           \<and> sym_probe_fns (debug_sf d) =
               (if sym_probe_fns T = None then None else Some debug_sym_probe_fns)"
  unfolding install_result [OF assms]
  by (simp add: key_get_def deref_sf_def set_sf_simps split del: if_split cong: if_cong)

theorem install_preserves_absence_witness:
  "\<not> symfile_debug_installed sample_gdb 4
   \<and> deref_sf sample_gdb (sf (objfile_at sample_gdb 4)) = Some sample_sym_fns
   \<and> (\<exists>st' d. install_symfile_debug_logging sample_gdb 4 = Inr st'
           \<and> key_get st' 4 = Some d
           \<and> deref_sf st' (sf (objfile_at st' 4)) = Some (debug_sf d)
           \<and> sym_new_init (debug_sf d) = Some Debug_sym_new_init
           \<and> sym_init (debug_sf d) = Some Debug_sym_init
           \<and> sym_read (debug_sf d) = Some Debug_sym_read
           \<and> sym_finish (debug_sf d) = None
           \<and> sym_offsets (debug_sf d) = Some Debug_sym_offsets
           \<and> sym_segments (debug_sf d) = Some Debug_sym_segments
           \<and> sym_read_linetable (debug_sf d) = None
           \<and> sym_relocate (debug_sf d) = Some Debug_sym_relocate
           \<and> sym_probe_fns (debug_sf d) = Some debug_sym_probe_fns)"
proof -
  have h1: "\<not> symfile_debug_installed sample_gdb 4"
    by (simp add: symfile_debug_installed_def key_get_def sample_gdb_def)
  have h2: "deref_sf sample_gdb (sf (objfile_at sample_gdb 4)) = Some sample_sym_fns"
    by (simp add: deref_sf_def sample_gdb_def)
  show ?thesis
    using h1 h2 install_preserves_absence [OF h1 h2]
    by (simp add: sample_sym_fns_def)
qed

subsection \<open>Installing and removing restores the table\<close>

text \<open>
  C4. For an objfile whose table is the original table at address \<open>T\<close>, with no proxies
  installed, installing and then immediately removing the proxies succeeds, leaves
  \<open>objfile->sf\<close> equal to the pointer it was, and leaves no store entry for the objfile;
  the whole state is as before.
\<close>

theorem install_uninstall_round_trip:
  assumes "sf (objfile_at st objfile) = Static_sf T"
      and "\<not> symfile_debug_installed st objfile"
  shows "\<exists>st' st''. install_symfile_debug_logging st objfile = Inr st'
           \<and> uninstall_symfile_debug_logging st' objfile = Inr st''
           \<and> sf (objfile_at st'' objfile) = Static_sf T
           \<and> key_get st'' objfile = None
           \<and> st'' = st"
proof -
  have no_entry: "symfile_debug_objfile_data_key st objfile = None"
    using assms by (simp add: symfile_debug_installed_def key_get_def)
  have readable: "deref_sf st (sf (objfile_at st objfile)) = Some (sym_fns_at st T)"
    using assms(1) by (simp add: deref_sf_def)
  have same_objfile: "(objfile_at st)(objfile := (objfile_at st objfile)\<lparr>sf := Static_sf T\<rparr>) = objfile_at st"
    using assms(1) by (auto simp: fun_eq_iff)
  have gone: "(symfile_debug_objfile_data_key st)(objfile := None) = symfile_debug_objfile_data_key st"
    using no_entry by (auto simp: fun_eq_iff)
  show ?thesis
    unfolding install_result [OF assms(2) readable]
    using assms(1) no_entry same_objfile gone
    by (simp add: uninstall_symfile_debug_logging_def symfile_debug_installed_def
                  key_get_def key_clear_def set_sf_def
             split del: if_split cong: if_cong)
qed

theorem install_uninstall_round_trip_witness:
  "sf (objfile_at sample_gdb 4) = Static_sf 10
   \<and> \<not> symfile_debug_installed sample_gdb 4
   \<and> (\<exists>st' st''. install_symfile_debug_logging sample_gdb 4 = Inr st'
           \<and> uninstall_symfile_debug_logging st' 4 = Inr st''
           \<and> sf (objfile_at st'' 4) = Static_sf 10
           \<and> key_get st'' 4 = None
           \<and> st'' = sample_gdb)"
proof -
  have h1: "sf (objfile_at sample_gdb 4) = Static_sf 10"
    by (simp add: sample_gdb_def)
  have h2: "\<not> symfile_debug_installed sample_gdb 4"
    by (simp add: symfile_debug_installed_def key_get_def sample_gdb_def)
  show ?thesis
    using h1 h2 install_uninstall_round_trip [OF h1 h2] by simp
qed

subsection \<open>The assertions of installing and removing\<close>

lemma install_never_asserts_when_absent:
  assumes "\<not> symfile_debug_installed st objfile"
  shows "install_symfile_debug_logging st objfile \<noteq> Inl (Internal_error msg)"
proof (cases "deref_sf st (sf (objfile_at st objfile))")
  case None
  then show ?thesis using assms by (simp add: install_unreadable)
next
  case (Some T)
  show ?thesis unfolding install_result [OF assms Some] by simp
qed

text \<open>
  C5 at an objfile whose table is null. The claim asks for a failed assertion whenever
  the table is null or the objfile has a store entry, and \<open>uninstall_symfile_debug_logging\<close>
  does fail its assertion on objfile 6 of the sample state, which has a null table and no
  entry. \<open>install_symfile_debug_logging\<close> does not: \<open>symfile_debug_installed\<close> is false
  there, so the assertion \<open>!symfile_debug_installed (objfile)\<close> passes and the function
  reads \<open>real_sf->sym_new_init\<close> through the null pointer. The handler of the setting
  reaches this when logging is turned on while such an objfile is loaded.
\<close>

theorem install_null_table_memory_fault:
  "\<not> (sf (objfile_at sample_gdb 6) \<noteq> Null_sf \<and> key_get sample_gdb 6 = None)
   \<and> install_symfile_debug_logging sample_gdb 6 = Inl Memory_fault
   \<and> uninstall_symfile_debug_logging sample_gdb 6
       = Inl (Internal_error ''symfile_debug_installed (objfile)'')
   \<and> set_debug_symfile (sample_gdb\<lparr>debug_symfile := True, program_spaces := [[6]]\<rparr>)
       = Inl Memory_fault"
proof -
  let ?st = "sample_gdb\<lparr>debug_symfile := True, program_spaces := [[6]]\<rparr>"
  have null: "sf (objfile_at sample_gdb 6) = Null_sf" "key_get sample_gdb 6 = None"
    by (simp_all add: key_get_def sample_gdb_def)
  have absent: "\<not> symfile_debug_installed sample_gdb 6"
    using null by (simp add: symfile_debug_installed_def)
  have unreadable: "deref_sf sample_gdb (sf (objfile_at sample_gdb 6)) = None"
    using null by (simp add: deref_sf_def)
  have absent': "\<not> symfile_debug_installed ?st 6"
    using null by (simp add: symfile_debug_installed_def key_get_def)
  have unreadable': "deref_sf ?st (sf (objfile_at ?st 6)) = None"
    using null by (simp add: deref_sf_def)
  have a: "install_symfile_debug_logging sample_gdb 6 = Inl Memory_fault"
    by (rule install_unreadable [OF absent unreadable])
  have b: "uninstall_symfile_debug_logging sample_gdb 6
       = Inl (Internal_error ''symfile_debug_installed (objfile)'')"
    by (rule uninstall_fails_when_absent [OF absent])
  have c: "set_debug_symfile ?st = Inl Memory_fault"
    using absent' install_unreadable [OF absent' unreadable']
    by (simp add: set_debug_symfile_def set_debug_symfile_body_def)
  show ?thesis
    using null a b c by simp
qed

subsection \<open>The assertion of the guard\<close>

text \<open>
  C10. When \<open>objfile_set_sym_fns\<close> finds the proxies installed on the objfile, it asserts
  \<open>debug_symfile\<close>: with the flag off the call fails with that assertion, so whenever the
  call returns the flag was on.
\<close>

theorem guard_asserts_toggle:
  assumes "symfile_debug_installed st objfile"
  shows "(\<not> debug_symfile st \<longrightarrow>
            objfile_set_sym_fns st objfile new_sf = Inl (Internal_error ''debug_symfile''))
       \<and> (\<forall>st'. objfile_set_sym_fns st objfile new_sf = Inr st' \<longrightarrow> debug_symfile st)"
  using assms by (auto simp: objfile_set_sym_fns_def)

theorem guard_asserts_toggle_witness:
  "symfile_debug_installed (sample_logging_gdb\<lparr>debug_symfile := False\<rparr>) 4
   \<and> objfile_set_sym_fns (sample_logging_gdb\<lparr>debug_symfile := False\<rparr>) 4 (Static_sf 20)
       = Inl (Internal_error ''debug_symfile'')"
proof -
  have h: "symfile_debug_installed (sample_logging_gdb\<lparr>debug_symfile := False\<rparr>) 4"
    by (simp add: symfile_debug_installed_def key_get_def sample_logging_gdb_def)
  show ?thesis
    using h guard_asserts_toggle [OF h, of "Static_sf 20"] by simp
qed

subsection \<open>Replacing the table under the guard\<close>

lemma install_on_new_table:
  assumes "symfile_debug_objfile_data_key st objfile = None"
  shows "\<exists>st' d. install_symfile_debug_logging (set_sf st objfile (Static_sf T2)) objfile
                  = Inr st'
           \<and> symfile_debug_installed st' objfile
           \<and> key_get st' objfile = Some d
           \<and> real_sf d = Static_sf T2
           \<and> sf (objfile_at st' objfile) = Debug_sf objfile
           \<and> deref_sf st' (sf (objfile_at st' objfile)) = Some (debug_sf d)
           \<and> deref_sf st' (real_sf d) = Some (sym_fns_at st T2)
           \<and> sym_new_init (debug_sf d) =
               (if sym_new_init (sym_fns_at st T2) = None then None else Some Debug_sym_new_init)
           \<and> sym_init (debug_sf d) =
               (if sym_init (sym_fns_at st T2) = None then None else Some Debug_sym_init)
           \<and> sym_read (debug_sf d) =
               (if sym_read (sym_fns_at st T2) = None then None else Some Debug_sym_read)
           \<and> sym_finish (debug_sf d) =
               (if sym_finish (sym_fns_at st T2) = None then None else Some Debug_sym_finish)
           \<and> sym_offsets (debug_sf d) =
               (if sym_offsets (sym_fns_at st T2) = None then None else Some Debug_sym_offsets)
           \<and> sym_segments (debug_sf d) =
               (if sym_segments (sym_fns_at st T2) = None then None else Some Debug_sym_segments)
           \<and> sym_read_linetable (debug_sf d) =
               (if sym_read_linetable (sym_fns_at st T2) = None then None else Some Debug_sym_read_linetable)
           \<and> sym_relocate (debug_sf d) =
               (if sym_relocate (sym_fns_at st T2) = None then None else Some Debug_sym_relocate)
           \<and> sym_probe_fns (debug_sf d) =
               (if sym_probe_fns (sym_fns_at st T2) = None then None else Some debug_sym_probe_fns)"
proof -
  let ?st = "set_sf st objfile (Static_sf T2)"
  have absent: "\<not> symfile_debug_installed ?st objfile"
    using assms by (simp add: symfile_debug_installed_def key_get_def set_sf_simps)
  have readable: "deref_sf ?st (sf (objfile_at ?st objfile)) = Some (sym_fns_at st T2)"
    by (simp add: deref_sf_def set_sf_simps)
  show ?thesis
    unfolding install_result [OF absent readable]
    by (simp add: symfile_debug_installed_def key_get_def deref_sf_def set_sf_simps
             split del: if_split cong: if_cong)
qed

text \<open>
  C3. The state is taken as the data model has it: an objfile has a store entry only
  while the proxies are installed on it, and proxies are installed only while
  \<open>debug_symfile\<close> is on (\<open>guard_keeps_consistency\<close> and \<open>setting_keeps_consistency\<close>
  below: the operations keep it so). Then \<open>objfile_set_sym_fns\<close> with the table at
  address \<open>T2\<close> returns. With the flag on, the proxies are installed on the objfile
  afterwards and its table is the \<open>debug_sf\<close> of its store entry; the original recorded
  there is \<open>T2\<close>, whatever was recorded before, reading through it gives the table at
  \<open>T2\<close>, and the shadow is built from that table: each of its nine slots holds its proxy
  if the slot is populated in the table at \<open>T2\<close> and is null if not. With the flag off,
  the table of the objfile is \<open>T2\<close> itself, read as the table at \<open>T2\<close>, and the objfile
  has no store entry.
\<close>

theorem guard_replaces_table:
  assumes "key_get st objfile \<noteq> None \<longrightarrow>
             symfile_debug_installed st objfile \<and> debug_symfile st"
  shows "(debug_symfile st \<longrightarrow>
            (\<exists>st' d. objfile_set_sym_fns st objfile (Static_sf T2) = Inr st'
               \<and> symfile_debug_installed st' objfile
               \<and> key_get st' objfile = Some d
               \<and> real_sf d = Static_sf T2
               \<and> sf (objfile_at st' objfile) = Debug_sf objfile
               \<and> deref_sf st' (sf (objfile_at st' objfile)) = Some (debug_sf d)
               \<and> deref_sf st' (real_sf d) = Some (sym_fns_at st T2)
               \<and> sym_new_init (debug_sf d) =
                   (if sym_new_init (sym_fns_at st T2) = None then None else Some Debug_sym_new_init)
               \<and> sym_init (debug_sf d) =
                   (if sym_init (sym_fns_at st T2) = None then None else Some Debug_sym_init)
               \<and> sym_read (debug_sf d) =
                   (if sym_read (sym_fns_at st T2) = None then None else Some Debug_sym_read)
               \<and> sym_finish (debug_sf d) =
                   (if sym_finish (sym_fns_at st T2) = None then None else Some Debug_sym_finish)
               \<and> sym_offsets (debug_sf d) =
                   (if sym_offsets (sym_fns_at st T2) = None then None else Some Debug_sym_offsets)
               \<and> sym_segments (debug_sf d) =
                   (if sym_segments (sym_fns_at st T2) = None then None else Some Debug_sym_segments)
               \<and> sym_read_linetable (debug_sf d) =
                   (if sym_read_linetable (sym_fns_at st T2) = None then None else Some Debug_sym_read_linetable)
               \<and> sym_relocate (debug_sf d) =
                   (if sym_relocate (sym_fns_at st T2) = None then None else Some Debug_sym_relocate)
               \<and> sym_probe_fns (debug_sf d) =
                   (if sym_probe_fns (sym_fns_at st T2) = None then None else Some debug_sym_probe_fns)))
       \<and> (\<not> debug_symfile st \<longrightarrow>
            (\<exists>st'. objfile_set_sym_fns st objfile (Static_sf T2) = Inr st'
               \<and> sf (objfile_at st' objfile) = Static_sf T2
               \<and> deref_sf st' (sf (objfile_at st' objfile)) = Some (sym_fns_at st T2)
               \<and> key_get st' objfile = None
               \<and> \<not> symfile_debug_installed st' objfile))"
proof (cases "debug_symfile st")
  case False
  then have none: "key_get st objfile = None"
    using assms by blast
  then show ?thesis
    using False
    by (simp add: objfile_set_sym_fns_def symfile_debug_installed_def set_sf_simps
                  key_get_def deref_sf_def)
next
  case True
  show ?thesis
  proof (cases "symfile_debug_installed st objfile")
    case absent: False
    then have none: "symfile_debug_objfile_data_key st objfile = None"
      using assms by (auto simp: key_get_def)
    have "objfile_set_sym_fns st objfile (Static_sf T2) =
            install_symfile_debug_logging (set_sf st objfile (Static_sf T2)) objfile"
      using True absent by (simp add: objfile_set_sym_fns_def set_sf_simps)
    then show ?thesis
      using True install_on_new_table [OF none, of T2] by simp
  next
    case present: True
    obtain d0 where
      uninst: "uninstall_symfile_debug_logging st objfile =
                 Inr ((set_sf st objfile (real_sf d0))\<lparr>symfile_debug_objfile_data_key :=
                        (symfile_debug_objfile_data_key st)(objfile := None)\<rparr>)"
      and "key_get st objfile = Some d0"
      using uninstall_result [OF present] by blast
    let ?st1 = "(set_sf st objfile (real_sf d0))\<lparr>symfile_debug_objfile_data_key :=
                        (symfile_debug_objfile_data_key st)(objfile := None)\<rparr>"
    have none: "symfile_debug_objfile_data_key ?st1 objfile = None"
      by simp
    have tables: "sym_fns_at ?st1 = sym_fns_at st"
      by (simp add: set_sf_simps)
    have "objfile_set_sym_fns st objfile (Static_sf T2) =
            install_symfile_debug_logging (set_sf ?st1 objfile (Static_sf T2)) objfile"
      using True present uninst
      by (simp add: objfile_set_sym_fns_def set_sf_simps)
    then show ?thesis
      using True install_on_new_table [OF none, of T2] unfolding tables by simp
  qed
qed

theorem guard_replaces_table_witness:
  "symfile_debug_installed sample_logging_gdb 4
   \<and> debug_symfile sample_logging_gdb
   \<and> (\<exists>st' d. objfile_set_sym_fns sample_logging_gdb 4 (Static_sf 20) = Inr st'
         \<and> symfile_debug_installed st' 4
         \<and> key_get st' 4 = Some d
         \<and> real_sf d = Static_sf 20
         \<and> sf (objfile_at st' 4) = Debug_sf 4
         \<and> deref_sf st' (sf (objfile_at st' 4)) = Some (debug_sf d)
         \<and> deref_sf st' (real_sf d) = Some throwing_sym_fns
         \<and> sym_new_init (debug_sf d) = None
         \<and> sym_init (debug_sf d) = None
         \<and> sym_read (debug_sf d) = Some Debug_sym_read
         \<and> sym_finish (debug_sf d) = None
         \<and> sym_offsets (debug_sf d) = None
         \<and> sym_segments (debug_sf d) = None
         \<and> sym_read_linetable (debug_sf d) = None
         \<and> sym_relocate (debug_sf d) = Some Debug_sym_relocate
         \<and> sym_probe_fns (debug_sf d) = Some debug_sym_probe_fns)
   \<and> key_get sample_gdb 4 = None
   \<and> \<not> debug_symfile sample_gdb
   \<and> (\<exists>st'. objfile_set_sym_fns sample_gdb 4 (Static_sf 20) = Inr st'
         \<and> sf (objfile_at st' 4) = Static_sf 20
         \<and> deref_sf st' (sf (objfile_at st' 4)) = Some throwing_sym_fns
         \<and> key_get st' 4 = None
         \<and> \<not> symfile_debug_installed st' 4)"
proof -
  have inst: "symfile_debug_installed sample_logging_gdb 4"
    by (simp add: symfile_debug_installed_def key_get_def sample_logging_gdb_def)
  have on: "debug_symfile sample_logging_gdb"
    by (simp add: sample_logging_gdb_def)
  have none: "key_get sample_gdb 4 = None"
    by (simp add: key_get_def sample_gdb_def)
  have off: "\<not> debug_symfile sample_gdb"
    by (simp add: sample_gdb_def)
  have t1: "sym_fns_at sample_logging_gdb 20 = throwing_sym_fns"
    by (simp add: sample_logging_gdb_def)
  have t2: "sym_fns_at sample_gdb 20 = throwing_sym_fns"
    by (simp add: sample_gdb_def)
  have slots: "sym_new_init throwing_sym_fns = None" "sym_init throwing_sym_fns = None"
    "sym_read throwing_sym_fns \<noteq> None" "sym_finish throwing_sym_fns = None"
    "sym_offsets throwing_sym_fns = None" "sym_segments throwing_sym_fns = None"
    "sym_read_linetable throwing_sym_fns = None" "sym_relocate throwing_sym_fns \<noteq> None"
    "sym_probe_fns throwing_sym_fns \<noteq> None"
    by (simp_all add: throwing_sym_fns_def)
  have h1: "key_get sample_logging_gdb 4 \<noteq> None \<longrightarrow>
      symfile_debug_installed sample_logging_gdb 4 \<and> debug_symfile sample_logging_gdb"
    using inst on by simp
  have h2: "key_get sample_gdb 4 \<noteq> None \<longrightarrow>
      symfile_debug_installed sample_gdb 4 \<and> debug_symfile sample_gdb"
    using none by simp
  have enabled: "\<exists>st' d. objfile_set_sym_fns sample_logging_gdb 4 (Static_sf 20) = Inr st'
         \<and> symfile_debug_installed st' 4
         \<and> key_get st' 4 = Some d
         \<and> real_sf d = Static_sf 20
         \<and> sf (objfile_at st' 4) = Debug_sf 4
         \<and> deref_sf st' (sf (objfile_at st' 4)) = Some (debug_sf d)
         \<and> deref_sf st' (real_sf d) = Some throwing_sym_fns
         \<and> sym_new_init (debug_sf d) = None
         \<and> sym_init (debug_sf d) = None
         \<and> sym_read (debug_sf d) = Some Debug_sym_read
         \<and> sym_finish (debug_sf d) = None
         \<and> sym_offsets (debug_sf d) = None
         \<and> sym_segments (debug_sf d) = None
         \<and> sym_read_linetable (debug_sf d) = None
         \<and> sym_relocate (debug_sf d) = Some Debug_sym_relocate
         \<and> sym_probe_fns (debug_sf d) = Some debug_sym_probe_fns"
    using guard_replaces_table [OF h1, of 20, THEN conjunct1, rule_format, OF on]
    unfolding t1 by (simp add: slots)
  have disabled: "\<exists>st'. objfile_set_sym_fns sample_gdb 4 (Static_sf 20) = Inr st'
         \<and> sf (objfile_at st' 4) = Static_sf 20
         \<and> deref_sf st' (sf (objfile_at st' 4)) = Some throwing_sym_fns
         \<and> key_get st' 4 = None
         \<and> \<not> symfile_debug_installed st' 4"
    using guard_replaces_table [OF h2, of 20, THEN conjunct2, rule_format, OF off]
    unfolding t2 by simp
  show ?thesis
    by (intro conjI inst on enabled none off disabled)
qed

subsection \<open>The handler leaves an objfile in the target state alone\<close>

lemma body_in_target_state:
  "debug_symfile st = symfile_debug_installed st objfile \<Longrightarrow>
   set_debug_symfile_body st objfile = Inr st"
  by (simp add: set_debug_symfile_body_def)

lemma body_never_asserts:
  "set_debug_symfile_body st objfile \<noteq> Inl (Internal_error msg)"
proof (cases "symfile_debug_installed st objfile")
  case True
  obtain d where "key_get st objfile = Some d"
    and "uninstall_symfile_debug_logging st objfile =
      Inr ((set_sf st objfile (real_sf d))\<lparr>symfile_debug_objfile_data_key :=
             (symfile_debug_objfile_data_key st)(objfile := None)\<rparr>)"
    using uninstall_result [OF True] by blast
  then show ?thesis
    using True by (simp add: set_debug_symfile_body_def)
next
  case False
  then show ?thesis
    by (simp add: set_debug_symfile_body_def install_never_asserts_when_absent)
qed

lemma body_frame:
  assumes "set_debug_symfile_body st other = Inr st'"
  shows "debug_symfile st' = debug_symfile st
       \<and> (other \<noteq> objfile \<longrightarrow> objfile_at st' objfile = objfile_at st objfile
             \<and> symfile_debug_objfile_data_key st' objfile
                 = symfile_debug_objfile_data_key st objfile)"
proof (cases "debug_symfile st = symfile_debug_installed st other")
  case True
  then show ?thesis
    using assms by (simp add: body_in_target_state)
next
  case mismatch: False
  show ?thesis
  proof (cases "symfile_debug_installed st other")
    case True
    obtain d where "key_get st other = Some d"
      and "uninstall_symfile_debug_logging st other =
        Inr ((set_sf st other (real_sf d))\<lparr>symfile_debug_objfile_data_key :=
               (symfile_debug_objfile_data_key st)(other := None)\<rparr>)"
      using uninstall_result [OF True] by blast
    then have "st' = (set_sf st other (real_sf d))\<lparr>symfile_debug_objfile_data_key :=
               (symfile_debug_objfile_data_key st)(other := None)\<rparr>"
      using True mismatch assms by (simp add: set_debug_symfile_body_def)
    then show ?thesis
      by (simp add: set_sf_simps)
  next
    case False
    then have run: "install_symfile_debug_logging st other = Inr st'"
      using mismatch assms by (simp add: set_debug_symfile_body_def)
    show ?thesis
    proof (cases "deref_sf st (sf (objfile_at st other))")
      case None
      then show ?thesis
        using False run by (simp add: install_unreadable)
    next
      case (Some T)
      show ?thesis
        using run unfolding install_result [OF False Some]
        by (auto simp: set_sf_simps split del: if_split cong: if_cong)
    qed
  qed
qed

lemma body_keeps_module:
  assumes "debug_symfile st = symfile_debug_installed st objfile"
      and "set_debug_symfile_body st other = Inr st'"
  shows "objfile_at st' objfile = objfile_at st objfile
       \<and> symfile_debug_objfile_data_key st' objfile = symfile_debug_objfile_data_key st objfile
       \<and> debug_symfile st' = symfile_debug_installed st' objfile"
proof (cases "other = objfile")
  case True
  then show ?thesis
    using assms body_in_target_state [OF assms(1)] by simp
next
  case False
  then show ?thesis
    using assms(1) body_frame [OF assms(2), of objfile]
    by (simp add: symfile_debug_installed_def key_get_def)
qed

lemma for_objfiles_keeps_module:
  "debug_symfile st = symfile_debug_installed st objfile \<Longrightarrow>
   for_objfiles st pspace = Inr st' \<Longrightarrow>
   objfile_at st' objfile = objfile_at st objfile
   \<and> symfile_debug_objfile_data_key st' objfile = symfile_debug_objfile_data_key st objfile
   \<and> debug_symfile st' = symfile_debug_installed st' objfile"
proof (induction pspace arbitrary: st)
  case Nil
  then show ?case by simp
next
  case (Cons other rest)
  from Cons.prems(2) obtain st1 where
    step: "set_debug_symfile_body st other = Inr st1"
    and rest: "for_objfiles st1 rest = Inr st'"
    by (auto split: sum.splits)
  from body_keeps_module [OF Cons.prems(1) step] Cons.IH [OF _ rest]
  show ?case by simp
qed

lemma for_program_spaces_keeps_module:
  "debug_symfile st = symfile_debug_installed st objfile \<Longrightarrow>
   for_program_spaces st pspaces = Inr st' \<Longrightarrow>
   objfile_at st' objfile = objfile_at st objfile
   \<and> symfile_debug_objfile_data_key st' objfile = symfile_debug_objfile_data_key st objfile
   \<and> debug_symfile st' = symfile_debug_installed st' objfile"
proof (induction pspaces arbitrary: st)
  case Nil
  then show ?case by simp
next
  case (Cons pspace rest)
  from Cons.prems(2) obtain st1 where
    step: "for_objfiles st pspace = Inr st1"
    and rest: "for_program_spaces st1 rest = Inr st'"
    by (auto split: sum.splits)
  from for_objfiles_keeps_module [OF Cons.prems(1) step] Cons.IH [OF _ rest]
  show ?case by simp
qed

lemma for_objfiles_never_asserts:
  "for_objfiles st pspace \<noteq> Inl (Internal_error msg)"
  by (induction pspace arbitrary: st) (auto simp: body_never_asserts split: sum.splits)

lemma for_program_spaces_never_asserts:
  "for_program_spaces st pspaces \<noteq> Inl (Internal_error msg)"
  by (induction pspaces arbitrary: st) (auto simp: for_objfiles_never_asserts split: sum.splits)

text \<open>Turning logging on in the first sample state gives the second.\<close>

lemma sample_toggle_on:
  "set_debug_symfile (sample_gdb\<lparr>debug_symfile := True\<rparr>) = Inr sample_logging_gdb"
  by (simp add: set_debug_symfile_def sample_gdb_def set_debug_symfile_body_def
        symfile_debug_installed_def key_get_def install_symfile_debug_logging_def
        deref_sf_def Let_def COPY_SF_PTR_def sample_sym_fns_def throwing_sym_fns_def
        key_set_def set_sf_def null_sym_fns_def sample_logging_gdb_def debug_sym_fns_def
        fun_eq_iff)

lemma sample_toggle_again:
  "set_debug_symfile sample_logging_gdb = Inr sample_logging_gdb"
proof -
  have i4: "symfile_debug_installed sample_logging_gdb 4"
    by (simp add: symfile_debug_installed_def key_get_def sample_logging_gdb_def)
  have i5: "symfile_debug_installed sample_logging_gdb 5"
    by (simp add: symfile_debug_installed_def key_get_def sample_logging_gdb_def)
  have on: "debug_symfile sample_logging_gdb"
    by (simp add: sample_logging_gdb_def)
  have ps: "program_spaces sample_logging_gdb = [[4], [5]]"
    by (simp add: sample_logging_gdb_def)
  show ?thesis
    by (simp add: set_debug_symfile_def ps body_in_target_state on i4 i5)
qed

text \<open>
  C8. For an objfile whose proxies are installed exactly if \<open>debug_symfile\<close> is on, the
  body of the loops of \<open>set_debug_symfile\<close> does nothing, and when the whole handler
  returns, the table pointer of the objfile, its store entry and whether its proxies are
  installed are what they were. In no state does the handler fail an assertion: it never
  installs twice.
\<close>

theorem toggle_idempotent:
  assumes "debug_symfile st = symfile_debug_installed st objfile"
  shows "set_debug_symfile_body st objfile = Inr st
       \<and> (\<forall>st'. set_debug_symfile st = Inr st' \<longrightarrow>
             sf (objfile_at st' objfile) = sf (objfile_at st objfile)
           \<and> key_get st' objfile = key_get st objfile
           \<and> symfile_debug_installed st' objfile = symfile_debug_installed st objfile)
       \<and> (\<forall>msg. set_debug_symfile st \<noteq> Inl (Internal_error msg))"
proof (intro conjI allI impI)
  show "set_debug_symfile_body st objfile = Inr st"
    using assms by (rule body_in_target_state)
next
  fix st' assume run: "set_debug_symfile st = Inr st'"
  then have "for_program_spaces st (program_spaces st) = Inr st'"
    by (simp add: set_debug_symfile_def)
  from for_program_spaces_keeps_module [OF assms this]
  show "sf (objfile_at st' objfile) = sf (objfile_at st objfile)"
    and "key_get st' objfile = key_get st objfile"
    and "symfile_debug_installed st' objfile = symfile_debug_installed st objfile"
    by (simp_all add: key_get_def symfile_debug_installed_def)
next
  fix msg show "set_debug_symfile st \<noteq> Inl (Internal_error msg)"
    by (simp add: set_debug_symfile_def for_program_spaces_never_asserts)
qed

theorem toggle_idempotent_witness:
  "debug_symfile sample_logging_gdb = symfile_debug_installed sample_logging_gdb 4
   \<and> set_debug_symfile_body sample_logging_gdb 4 = Inr sample_logging_gdb
   \<and> set_debug_symfile sample_logging_gdb = Inr sample_logging_gdb
   \<and> key_get sample_logging_gdb 4 \<noteq> None"
proof -
  have h: "debug_symfile sample_logging_gdb = symfile_debug_installed sample_logging_gdb 4"
    by (simp add: symfile_debug_installed_def key_get_def sample_logging_gdb_def)
  have k: "key_get sample_logging_gdb 4 \<noteq> None"
    by (simp add: key_get_def sample_logging_gdb_def)
  have body: "set_debug_symfile_body sample_logging_gdb 4 = Inr sample_logging_gdb"
    using toggle_idempotent [OF h] by (rule conjunct1)
  show ?thesis
    by (intro conjI h body sample_toggle_again k)
qed

subsection \<open>The states the operations produce\<close>

lemma install_frame:
  assumes "install_symfile_debug_logging st objfile = Inr st'"
  shows "debug_symfile st' = debug_symfile st"
    and "program_spaces st' = program_spaces st"
    and "symfile_debug_installed st' objfile"
    and "other \<noteq> objfile \<Longrightarrow> objfile_at st' other = objfile_at st other"
    and "other \<noteq> objfile \<Longrightarrow>
           symfile_debug_objfile_data_key st' other = symfile_debug_objfile_data_key st other"
proof -
  have absent: "\<not> symfile_debug_installed st objfile"
    using assms install_fails_when_installed [of st objfile]
    by (cases "symfile_debug_installed st objfile") auto
  obtain T where readable: "deref_sf st (sf (objfile_at st objfile)) = Some T"
    using assms absent by (cases "deref_sf st (sf (objfile_at st objfile))")
                           (auto simp: install_unreadable)
  have "debug_symfile st' = debug_symfile st \<and> program_spaces st' = program_spaces st
      \<and> symfile_debug_installed st' objfile
      \<and> (other \<noteq> objfile \<longrightarrow> objfile_at st' other = objfile_at st other
            \<and> symfile_debug_objfile_data_key st' other
                = symfile_debug_objfile_data_key st other)"
    using assms unfolding install_result [OF absent readable]
    by (auto simp: set_sf_simps symfile_debug_installed_def key_get_def
             split del: if_split cong: if_cong)
  then show "debug_symfile st' = debug_symfile st"
    and "program_spaces st' = program_spaces st"
    and "symfile_debug_installed st' objfile"
    and "other \<noteq> objfile \<Longrightarrow> objfile_at st' other = objfile_at st other"
    and "other \<noteq> objfile \<Longrightarrow>
           symfile_debug_objfile_data_key st' other = symfile_debug_objfile_data_key st other"
    by simp_all
qed

lemma uninstall_frame:
  assumes "uninstall_symfile_debug_logging st objfile = Inr st'"
  shows "debug_symfile st' = debug_symfile st"
    and "program_spaces st' = program_spaces st"
    and "symfile_debug_objfile_data_key st' objfile = None"
    and "other \<noteq> objfile \<Longrightarrow> objfile_at st' other = objfile_at st other"
    and "other \<noteq> objfile \<Longrightarrow>
           symfile_debug_objfile_data_key st' other = symfile_debug_objfile_data_key st other"
proof -
  have present: "symfile_debug_installed st objfile"
    using assms uninstall_fails_when_absent [of st objfile]
    by (cases "symfile_debug_installed st objfile") auto
  obtain d where "key_get st objfile = Some d"
    and "uninstall_symfile_debug_logging st objfile =
      Inr ((set_sf st objfile (real_sf d))\<lparr>symfile_debug_objfile_data_key :=
             (symfile_debug_objfile_data_key st)(objfile := None)\<rparr>)"
    using uninstall_result [OF present] by blast
  then have "st' = (set_sf st objfile (real_sf d))\<lparr>symfile_debug_objfile_data_key :=
             (symfile_debug_objfile_data_key st)(objfile := None)\<rparr>"
    using assms by simp
  then show "debug_symfile st' = debug_symfile st"
    and "program_spaces st' = program_spaces st"
    and "symfile_debug_objfile_data_key st' objfile = None"
    and "other \<noteq> objfile \<Longrightarrow> objfile_at st' other = objfile_at st other"
    and "other \<noteq> objfile \<Longrightarrow>
           symfile_debug_objfile_data_key st' other = symfile_debug_objfile_data_key st other"
    by (simp_all add: set_sf_simps)
qed

text \<open>
  In the states the operations of this file produce, an objfile has a store entry only
  while its proxies are installed, and only while \<open>debug_symfile\<close> is on: no objfile has an
  entry at the start, and the guard keeps the property.
\<close>

lemma guard_keeps_consistency:
  assumes inv: "\<forall>other. key_get st other \<noteq> None \<longrightarrow>
                  symfile_debug_installed st other \<and> debug_symfile st"
      and run: "objfile_set_sym_fns st objfile new_sf = Inr st'"
  shows "\<forall>other. key_get st' other \<noteq> None \<longrightarrow>
           symfile_debug_installed st' other \<and> debug_symfile st'"
proof (cases "debug_symfile st")
  case False
  then have "\<forall>other. key_get st other = None"
    using inv by blast
  moreover have "st' = set_sf st objfile new_sf"
    using False run calculation
    by (simp add: objfile_set_sym_fns_def symfile_debug_installed_def set_sf_simps)
  ultimately show ?thesis
    by (simp add: key_get_def set_sf_simps)
next
  case True
  have "\<exists>st1. debug_symfile st1 = debug_symfile st
          \<and> (\<forall>other. other \<noteq> objfile \<longrightarrow> objfile_at st1 other = objfile_at st other
                \<and> symfile_debug_objfile_data_key st1 other
                    = symfile_debug_objfile_data_key st other)
          \<and> install_symfile_debug_logging (set_sf st1 objfile new_sf) objfile = Inr st'"
  proof (cases "symfile_debug_installed st objfile")
    case False
    then have "install_symfile_debug_logging (set_sf st objfile new_sf) objfile = Inr st'"
      using run True by (simp add: objfile_set_sym_fns_def set_sf_simps)
    then show ?thesis by blast
  next
    case present: True
    then obtain st1 where u: "uninstall_symfile_debug_logging st objfile = Inr st1"
      using uninstall_result [OF present] by blast
    note fr = uninstall_frame [OF u]
    have "install_symfile_debug_logging (set_sf st1 objfile new_sf) objfile = Inr st'"
      using run True present u fr(1)
      by (simp add: objfile_set_sym_fns_def set_sf_simps)
    then show ?thesis
      using fr(1,4,5) by blast
  qed
  then obtain st1 where st1: "debug_symfile st1 = debug_symfile st"
    "\<And>other. other \<noteq> objfile \<Longrightarrow> objfile_at st1 other = objfile_at st other"
    "\<And>other. other \<noteq> objfile \<Longrightarrow>
       symfile_debug_objfile_data_key st1 other = symfile_debug_objfile_data_key st other"
    and second: "install_symfile_debug_logging (set_sf st1 objfile new_sf) objfile = Inr st'"
    by blast
  note fin = install_frame [OF second]
  show ?thesis
  proof (intro allI impI)
    fix other assume entry: "key_get st' other \<noteq> None"
    show "symfile_debug_installed st' other \<and> debug_symfile st'"
    proof (cases "other = objfile")
      case True
      then show ?thesis
        using fin(1,3) st1(1) \<open>debug_symfile st\<close> by (simp add: set_sf_simps)
    next
      case False
      then have "objfile_at st' other = objfile_at st other"
        and "symfile_debug_objfile_data_key st' other = symfile_debug_objfile_data_key st other"
        using fin(4,5) [of other] st1(2,3) [of other] by (simp_all add: set_sf_simps)
      then show ?thesis
        using entry inv fin(1) st1(1) \<open>debug_symfile st\<close>
        by (simp add: symfile_debug_installed_def key_get_def set_sf_simps)
    qed
  qed
qed


text \<open>
  Changing the setting writes \<open>debug_symfile\<close> and runs the handler. That keeps the
  property as well, the objfiles with an entry being among those of the program spaces.
\<close>

lemma body_keeps_tables:
  assumes tables: "\<forall>other. key_get st other \<noteq> None \<longrightarrow> sf (objfile_at st other) \<noteq> Null_sf"
      and run: "set_debug_symfile_body st objfile = Inr st'"
  shows "(\<forall>other. key_get st' other \<noteq> None \<longrightarrow> sf (objfile_at st' other) \<noteq> Null_sf)
       \<and> debug_symfile st' = debug_symfile st
       \<and> (\<not> debug_symfile st \<longrightarrow> key_get st' objfile = None
            \<and> (\<forall>other. key_get st' other \<noteq> None \<longrightarrow> key_get st other \<noteq> None))"
proof (cases "debug_symfile st = symfile_debug_installed st objfile")
  case True
  then have "st' = st"
    using run by (simp add: body_in_target_state)
  moreover have "\<not> debug_symfile st \<longrightarrow> key_get st objfile = None"
    using True tables by (auto simp: symfile_debug_installed_def)
  ultimately show ?thesis
    using tables by simp
next
  case mismatch: False
  show ?thesis
  proof (cases "debug_symfile st")
    case True
    then have inst: "install_symfile_debug_logging st objfile = Inr st'"
      using mismatch run by (simp add: set_debug_symfile_body_def)
    note fr = install_frame [OF inst]
    have "\<forall>other. key_get st' other \<noteq> None \<longrightarrow> sf (objfile_at st' other) \<noteq> Null_sf"
    proof (intro allI impI)
      fix other assume entry: "key_get st' other \<noteq> None"
      show "sf (objfile_at st' other) \<noteq> Null_sf"
      proof (cases "other = objfile")
        case True
        then show ?thesis using fr(3) by (simp add: symfile_debug_installed_def)
      next
        case False
        then show ?thesis
          using entry tables fr(4,5) [of other] by (simp add: key_get_def)
      qed
    qed
    then show ?thesis
      using True fr(1) by simp
  next
    case False
    then have uninst: "uninstall_symfile_debug_logging st objfile = Inr st'"
      using mismatch run by (simp add: set_debug_symfile_body_def)
    note fr = uninstall_frame [OF uninst]
    have keys: "\<forall>other. key_get st' other \<noteq> None \<longrightarrow>
                  other \<noteq> objfile \<and> key_get st other \<noteq> None
                  \<and> objfile_at st' other = objfile_at st other"
    proof (intro allI impI)
      fix other assume entry: "key_get st' other \<noteq> None"
      then have "other \<noteq> objfile"
        using fr(3) by (auto simp: key_get_def)
      then show "other \<noteq> objfile \<and> key_get st other \<noteq> None
                  \<and> objfile_at st' other = objfile_at st other"
        using entry fr(4,5) [of other] by (simp add: key_get_def)
    qed
    show ?thesis
      using False fr(1,3) keys tables by (auto simp: key_get_def)
  qed
qed

lemma for_objfiles_keeps_tables:
  "\<forall>other. key_get st other \<noteq> None \<longrightarrow> sf (objfile_at st other) \<noteq> Null_sf \<Longrightarrow>
   for_objfiles st pspace = Inr st' \<Longrightarrow>
   (\<forall>other. key_get st' other \<noteq> None \<longrightarrow> sf (objfile_at st' other) \<noteq> Null_sf)
   \<and> debug_symfile st' = debug_symfile st
   \<and> (\<not> debug_symfile st \<longrightarrow> (\<forall>objfile \<in> set pspace. key_get st' objfile = None)
        \<and> (\<forall>other. key_get st' other \<noteq> None \<longrightarrow> key_get st other \<noteq> None))"
proof (induction pspace arbitrary: st)
  case Nil
  then show ?case by simp
next
  case (Cons objfile rest)
  from Cons.prems(2) obtain st1 where
    step: "set_debug_symfile_body st objfile = Inr st1"
    and rest: "for_objfiles st1 rest = Inr st'"
    by (auto split: sum.splits)
  note one = body_keeps_tables [OF Cons.prems(1) step]
  from one have tables1:
    "\<forall>other. key_get st1 other \<noteq> None \<longrightarrow> sf (objfile_at st1 other) \<noteq> Null_sf"
    by blast
  note many = Cons.IH [OF tables1 rest]
  show ?case
    using one many by (simp; blast)
qed

lemma for_program_spaces_keeps_tables:
  "\<forall>other. key_get st other \<noteq> None \<longrightarrow> sf (objfile_at st other) \<noteq> Null_sf \<Longrightarrow>
   for_program_spaces st pspaces = Inr st' \<Longrightarrow>
   (\<forall>other. key_get st' other \<noteq> None \<longrightarrow> sf (objfile_at st' other) \<noteq> Null_sf)
   \<and> debug_symfile st' = debug_symfile st
   \<and> (\<not> debug_symfile st \<longrightarrow>
        (\<forall>pspace \<in> set pspaces. \<forall>objfile \<in> set pspace. key_get st' objfile = None)
        \<and> (\<forall>other. key_get st' other \<noteq> None \<longrightarrow> key_get st other \<noteq> None))"
proof (induction pspaces arbitrary: st)
  case Nil
  then show ?case by simp
next
  case (Cons pspace rest)
  from Cons.prems(2) obtain st1 where
    step: "for_objfiles st pspace = Inr st1"
    and rest: "for_program_spaces st1 rest = Inr st'"
    by (auto split: sum.splits)
  note one = for_objfiles_keeps_tables [OF Cons.prems(1) step]
  from one have tables1:
    "\<forall>other. key_get st1 other \<noteq> None \<longrightarrow> sf (objfile_at st1 other) \<noteq> Null_sf"
    by blast
  note many = Cons.IH [OF tables1 rest]
  show ?case
    using one many by (simp; blast)
qed

lemma setting_keeps_consistency:
  assumes inv: "\<forall>other. key_get st other \<noteq> None \<longrightarrow>
                  symfile_debug_installed st other \<and> debug_symfile st"
      and listed: "\<forall>other. key_get st other \<noteq> None \<longrightarrow>
                  (\<exists>pspace \<in> set (program_spaces st). other \<in> set pspace)"
      and run: "set_debug_symfile (st\<lparr>debug_symfile := enabled\<rparr>) = Inr st'"
  shows "\<forall>other. key_get st' other \<noteq> None \<longrightarrow>
           symfile_debug_installed st' other \<and> debug_symfile st'"
proof -
  let ?st0 = "st\<lparr>debug_symfile := enabled\<rparr>"
  have tables: "\<forall>other. key_get ?st0 other \<noteq> None \<longrightarrow> sf (objfile_at ?st0 other) \<noteq> Null_sf"
    using inv by (simp add: key_get_def symfile_debug_installed_def)
  have loop: "for_program_spaces ?st0 (program_spaces st) = Inr st'"
    using run by (simp add: set_debug_symfile_def)
  note facts = for_program_spaces_keeps_tables [OF tables loop]
  show ?thesis
  proof (cases enabled)
    case True
    then show ?thesis
      using facts by (simp add: symfile_debug_installed_def)
  next
    case False
    have "\<forall>other. key_get st' other = None"
    proof
      fix other
      show "key_get st' other = None"
      proof (rule ccontr)
        assume entry: "key_get st' other \<noteq> None"
        then have "key_get st other \<noteq> None"
          using facts False by (simp add: key_get_def)
        then obtain pspace where "pspace \<in> set (program_spaces st)" "other \<in> set pspace"
          using listed by blast
        then have "key_get st' other = None"
          using facts False by simp
        with entry show False by simp
      qed
    qed
    then show ?thesis by simp
  qed
qed

subsection \<open>The proxies forward\<close>

lemma call_backend [simp]:
  "call_objfile_fn depth (Backend_objfile_fn g1) objfile st = run_backend (g1 objfile) st"
  "call_read_fn depth (Backend_read_fn g2) objfile symfile_flags st
     = run_backend (g2 objfile symfile_flags) st"
  "call_offsets_fn depth (Backend_offsets_fn g3) objfile info st
     = run_backend (g3 objfile info) st"
  "call_relocate_fn depth (Backend_relocate_fn g4) objfile sectp buf st
     = run_backend (g4 objfile sectp buf) st"
  "call_get_probes_fn depth (Backend_get_probes_fn g5) objfile st
     = run_backend (g5 objfile) st"
  by (cases depth; simp)+

lemma fprintf_filtered_simps [simp]:
  "objfile_at (fprintf_filtered st format args) = objfile_at st"
  "symfile_debug_objfile_data_key (fprintf_filtered st format args)
     = symfile_debug_objfile_data_key st"
  "debug_symfile (fprintf_filtered st format args) = debug_symfile st"
  "sym_fns_at (fprintf_filtered st format args) = sym_fns_at st"
  "world (fprintf_filtered st format args) = world st"
  "program_spaces (fprintf_filtered st format args) = program_spaces st"
  "gdb_stdlog (fprintf_filtered st format args) = gdb_stdlog st @ [(format, args)]"
  by (simp_all add: fprintf_filtered_def)

lemma deref_sf_fprintf [simp]:
  "deref_sf (fprintf_filtered st format args) p = deref_sf st p"
  by (cases p) (simp_all add: deref_sf_def)

lemma real_slot_fprintf [simp]:
  "real_slot (fprintf_filtered st format args) debug_data name = real_slot st debug_data name"
  by (cases debug_data) (simp_all add: real_slot_def)

lemma run_backend_parts:
  "fst (run_backend f st) = fst (f (world st))"
  "world (snd (run_backend f st)) = snd (f (world st))"
  "gdb_stdlog (snd (run_backend f st)) = gdb_stdlog st"
  "objfile_at (snd (run_backend f st)) = objfile_at st"
  "symfile_debug_objfile_data_key (snd (run_backend f st)) = symfile_debug_objfile_data_key st"
  "debug_symfile (snd (run_backend f st)) = debug_symfile st"
  by (simp_all add: run_backend_def split: prod.splits)

text \<open>What each proxy does when the pointer it forwards through holds a backend function.\<close>

lemma void_proxies_forward:
  "real_slot st (key_get st objfile) sym_new_init = Some (Backend_objfile_fn g) \<Longrightarrow>
   debug_sym_new_init (call_objfile_fn depth) st objfile =
     run_backend (g objfile)
       (fprintf_filtered st ''sf->sym_new_init (%s)'' [Objfile_debug_name objfile])"
  "real_slot st (key_get st objfile) sym_init = Some (Backend_objfile_fn g) \<Longrightarrow>
   debug_sym_init (call_objfile_fn depth) st objfile =
     run_backend (g objfile)
       (fprintf_filtered st ''sf->sym_init (%s)'' [Objfile_debug_name objfile])"
  "real_slot st (key_get st objfile) sym_finish = Some (Backend_objfile_fn g) \<Longrightarrow>
   debug_sym_finish (call_objfile_fn depth) st objfile =
     run_backend (g objfile)
       (fprintf_filtered st ''sf->sym_finish (%s)'' [Objfile_debug_name objfile])"
  "real_slot st (key_get st objfile) sym_read_linetable = Some (Backend_objfile_fn g) \<Longrightarrow>
   debug_sym_read_linetable (call_objfile_fn depth) st objfile =
     run_backend (g objfile)
       (fprintf_filtered st ''sf->sym_read_linetable (%s)'' [Objfile_debug_name objfile])"
  by (simp_all add: debug_sym_new_init_def debug_sym_init_def debug_sym_finish_def
                    debug_sym_read_linetable_def Let_def key_get_def)

lemma read_proxy_forwards:
  assumes "real_slot st (key_get st objfile) sym_read = Some (Backend_read_fn g)"
  shows "debug_sym_read (call_read_fn depth) st objfile symfile_flags =
           run_backend (g objfile symfile_flags)
             (fprintf_filtered st ''sf->sym_read (%s, 0x%x)''
                [Objfile_debug_name objfile, Unsigned_arg (unat symfile_flags)])"
  using assms by (simp add: debug_sym_read_def Let_def key_get_def)

lemma offsets_proxy_forwards:
  assumes "real_slot st (key_get st objfile) sym_offsets = Some (Backend_offsets_fn g)"
  shows "debug_sym_offsets (call_offsets_fn depth) st objfile info =
           run_backend (g objfile info)
             (fprintf_filtered st ''sf->sym_offsets (%s, %s)''
                [Objfile_debug_name objfile, Host_address_to_string info])"
  using assms by (simp add: debug_sym_offsets_def Let_def key_get_def)

lemma relocate_proxy_forwards:
  assumes "real_slot st (key_get st objfile) sym_relocate = Some (Backend_relocate_fn g)"
  shows "debug_sym_relocate (call_relocate_fn depth) st objfile sectp buf =
           then_do (run_backend (g objfile sectp buf) st)
             (\<lambda>retval st.
                (Returns retval,
                 fprintf_filtered st ''sf->sym_relocate (%s, %s, %s) = %s''
                   [Objfile_debug_name objfile, Host_address_to_string sectp,
                    Host_address_to_string buf, Host_address_to_string retval]))"
  using assms by (simp add: debug_sym_relocate_def Let_def)

lemma get_probes_proxy_forwards:
  assumes "real_slot st (key_get st objfile) sym_probe_fns = Some probe_fns"
      and "sym_get_probes probe_fns = Some (Backend_get_probes_fn g)"
  shows "debug_sym_get_probes (call_get_probes_fn depth) st objfile =
           then_do (run_backend (g objfile) st)
             (\<lambda>retval st.
                (Returns retval,
                 fprintf_filtered st ''probes->sym_get_probes (%s) = %s''
                   [Objfile_debug_name objfile, Host_address_to_string (vector_data retval)]))"
  using assms by (simp add: debug_sym_get_probes_def Let_def)

lemma then_do_parts:
  "fst (then_do m (\<lambda>v s. (Returns v, h v s))) = fst m"
  "(\<And>v s. world (h v s) = world s) \<Longrightarrow>
     world (snd (then_do m (\<lambda>v s. (Returns v, h v s)))) = world (snd m)"
  by (cases m; cases "fst m"; simp add: then_do_def)+

lemma after_install:
  assumes "\<not> symfile_debug_installed st objfile"
      and "deref_sf st (sf (objfile_at st objfile)) = Some T"
  shows "\<exists>st'. install_symfile_debug_logging st objfile = Inr st'
          \<and> world st' = world st
          \<and> gdb_stdlog st' = gdb_stdlog st
          \<and> real_slot st' (key_get st' objfile) sym_new_init = sym_new_init T
          \<and> real_slot st' (key_get st' objfile) sym_init = sym_init T
          \<and> real_slot st' (key_get st' objfile) sym_read = sym_read T
          \<and> real_slot st' (key_get st' objfile) sym_finish = sym_finish T
          \<and> real_slot st' (key_get st' objfile) sym_offsets = sym_offsets T
          \<and> real_slot st' (key_get st' objfile) sym_segments = sym_segments T
          \<and> real_slot st' (key_get st' objfile) sym_read_linetable = sym_read_linetable T
          \<and> real_slot st' (key_get st' objfile) sym_relocate = sym_relocate T
          \<and> real_slot st' (key_get st' objfile) sym_probe_fns = sym_probe_fns T
          \<and> active_slot st' objfile sym_new_init =
               (if sym_new_init T = None then None else Some Debug_sym_new_init)
          \<and> active_slot st' objfile sym_init =
               (if sym_init T = None then None else Some Debug_sym_init)
          \<and> active_slot st' objfile sym_read =
               (if sym_read T = None then None else Some Debug_sym_read)
          \<and> active_slot st' objfile sym_finish =
               (if sym_finish T = None then None else Some Debug_sym_finish)
          \<and> active_slot st' objfile sym_offsets =
               (if sym_offsets T = None then None else Some Debug_sym_offsets)
          \<and> active_slot st' objfile sym_segments =
               (if sym_segments T = None then None else Some Debug_sym_segments)
          \<and> active_slot st' objfile sym_read_linetable =
               (if sym_read_linetable T = None then None else Some Debug_sym_read_linetable)
          \<and> active_slot st' objfile sym_relocate =
               (if sym_relocate T = None then None else Some Debug_sym_relocate)
          \<and> active_slot st' objfile sym_probe_fns =
               (if sym_probe_fns T = None then None else Some debug_sym_probe_fns)"
proof -
  have no_entry: "symfile_debug_objfile_data_key st objfile = None"
    using assms
    by (cases "sf (objfile_at st objfile)")
       (auto simp: symfile_debug_installed_def key_get_def deref_sf_def)
  have still: "\<And>k. deref_sf
            (st\<lparr>symfile_debug_objfile_data_key := (symfile_debug_objfile_data_key st)(objfile \<mapsto> k),
                objfile_at := (objfile_at st)
                  (objfile := (objfile_at st objfile)\<lparr>sf := Debug_sf objfile\<rparr>)\<rparr>)
            (sf (objfile_at st objfile)) = Some T"
    using assms(2) no_entry
    by (cases "sf (objfile_at st objfile)") (auto simp: deref_sf_def)
  show ?thesis
    unfolding install_result [OF assms]
    by (simp add: set_sf_def key_get_def real_slot_def active_slot_def still
             split del: if_split cong: if_cong)
       (simp add: deref_sf_def split del: if_split cong: if_cong)
qed

lemma active_slot_original:
  "deref_sf st (sf (objfile_at st objfile)) = Some T \<Longrightarrow>
   active_slot st objfile name = name T"
  by (simp add: active_slot_def)

lemma sample_slots:
  "active_slot sample_logging_gdb 4 name
     = name (debug_sym_fns\<lparr>sym_finish := None, sym_read_linetable := None\<rparr>)"
  "active_slot sample_logging_gdb 5 name
     = name (null_sym_fns\<lparr>sym_read := Some Debug_sym_read,
               sym_relocate := Some Debug_sym_relocate,
               sym_probe_fns := Some debug_sym_probe_fns\<rparr>)"
  "real_slot sample_logging_gdb (key_get sample_logging_gdb 4) name = name sample_sym_fns"
  "real_slot sample_logging_gdb (key_get sample_logging_gdb 5) name = name throwing_sym_fns"
  "active_slot sample_gdb 4 name = name sample_sym_fns"
  "active_slot sample_gdb 5 name = name throwing_sym_fns"
  by (simp_all add: active_slot_def real_slot_def key_get_def deref_sf_def
                    sample_logging_gdb_def sample_gdb_def)

lemma sample_fields:
  "world sample_gdb = 0"
  "world sample_logging_gdb = 0"
  "gdb_stdlog sample_gdb = []"
  "gdb_stdlog sample_logging_gdb = []"
  by (simp_all add: sample_logging_gdb_def sample_gdb_def)

lemma world_unchanged: "world st = w \<Longrightarrow> st\<lparr>world := w\<rparr> = st"
  by auto

subsection \<open>Results through the proxies\<close>

text \<open>
  C6 as stated fails at one slot. In the sample states the \<open>sym_segments\<close> of objfile 4
  returns its segment data when called through the original table, and fails the
  assertion of \<open>debug_sym_segments\<close> when called through the table of proxies.
\<close>

theorem segments_through_proxy_counterexample:
  "invoke_sym_segments sample_gdb 4 7 = (Returns (Some 7), sample_gdb)
   \<and> invoke_sym_segments sample_logging_gdb 4 7
       = (Aborts (Internal_error ''debug_sym_segments called''), sample_logging_gdb)"
  by (simp add: invoke_sym_segments_def sample_slots call_segments_fn_def
                debug_sym_segments_def debug_sym_fns_def sample_sym_fns_def run_backend_def
                world_unchanged sample_fields)

text \<open>
  C6, as the code has it. Install the proxies over a table \<open>T\<close>. For every slot other
  than \<open>sym_segments\<close> that holds a backend function in \<open>T\<close> (\<open>sym_new_init\<close>,
  \<open>sym_init\<close>, \<open>sym_read\<close>, \<open>sym_finish\<close>, \<open>sym_offsets\<close>, \<open>sym_read_linetable\<close>,
  \<open>sym_relocate\<close>, and \<open>sym_get_probes\<close> of the probe table) and for all arguments, the
  call through the table of proxies, with room for one proxy frame or more, has the
  outcome of the call through \<open>T\<close> (the same value returned, or the same error thrown)
  and leaves the rest of the debugger as that call leaves it.
\<close>

theorem proxies_preserve_results:
  assumes "\<not> symfile_debug_installed st objfile"
      and "deref_sf st (sf (objfile_at st objfile)) = Some T"
  shows "\<exists>st'. install_symfile_debug_logging st objfile = Inr st'
     \<and> (\<forall>g. sym_new_init T = Some (Backend_objfile_fn g) \<longrightarrow>
            fst (invoke_sym_new_init (Suc depth) st' objfile)
              = fst (invoke_sym_new_init depth st objfile)
          \<and> world (snd (invoke_sym_new_init (Suc depth) st' objfile))
              = world (snd (invoke_sym_new_init depth st objfile)))
     \<and> (\<forall>g. sym_init T = Some (Backend_objfile_fn g) \<longrightarrow>
            fst (invoke_sym_init (Suc depth) st' objfile)
              = fst (invoke_sym_init depth st objfile)
          \<and> world (snd (invoke_sym_init (Suc depth) st' objfile))
              = world (snd (invoke_sym_init depth st objfile)))
     \<and> (\<forall>g. sym_read T = Some (Backend_read_fn g) \<longrightarrow>
            fst (invoke_sym_read (Suc depth) st' objfile symfile_flags)
              = fst (invoke_sym_read depth st objfile symfile_flags)
          \<and> world (snd (invoke_sym_read (Suc depth) st' objfile symfile_flags))
              = world (snd (invoke_sym_read depth st objfile symfile_flags)))
     \<and> (\<forall>g. sym_finish T = Some (Backend_objfile_fn g) \<longrightarrow>
            fst (invoke_sym_finish (Suc depth) st' objfile)
              = fst (invoke_sym_finish depth st objfile)
          \<and> world (snd (invoke_sym_finish (Suc depth) st' objfile))
              = world (snd (invoke_sym_finish depth st objfile)))
     \<and> (\<forall>g. sym_offsets T = Some (Backend_offsets_fn g) \<longrightarrow>
            fst (invoke_sym_offsets (Suc depth) st' objfile info)
              = fst (invoke_sym_offsets depth st objfile info)
          \<and> world (snd (invoke_sym_offsets (Suc depth) st' objfile info))
              = world (snd (invoke_sym_offsets depth st objfile info)))
     \<and> (\<forall>g. sym_read_linetable T = Some (Backend_objfile_fn g) \<longrightarrow>
            fst (invoke_sym_read_linetable (Suc depth) st' objfile)
              = fst (invoke_sym_read_linetable depth st objfile)
          \<and> world (snd (invoke_sym_read_linetable (Suc depth) st' objfile))
              = world (snd (invoke_sym_read_linetable depth st objfile)))
     \<and> (\<forall>g. sym_relocate T = Some (Backend_relocate_fn g) \<longrightarrow>
            fst (invoke_sym_relocate (Suc depth) st' objfile sectp buf)
              = fst (invoke_sym_relocate depth st objfile sectp buf)
          \<and> world (snd (invoke_sym_relocate (Suc depth) st' objfile sectp buf))
              = world (snd (invoke_sym_relocate depth st objfile sectp buf)))
     \<and> (\<forall>probe_fns g. sym_probe_fns T = Some probe_fns
            \<and> sym_get_probes probe_fns = Some (Backend_get_probes_fn g) \<longrightarrow>
            fst (invoke_sym_get_probes (Suc depth) st' objfile)
              = fst (invoke_sym_get_probes depth st objfile)
          \<and> world (snd (invoke_sym_get_probes (Suc depth) st' objfile))
              = world (snd (invoke_sym_get_probes depth st objfile)))"
proof -
  obtain st' where inst: "install_symfile_debug_logging st objfile = Inr st'"
    and w: "world st' = world st"
    and r1: "real_slot st' (key_get st' objfile) sym_new_init = sym_new_init T"
    and r2: "real_slot st' (key_get st' objfile) sym_init = sym_init T"
    and r3: "real_slot st' (key_get st' objfile) sym_read = sym_read T"
    and r4: "real_slot st' (key_get st' objfile) sym_finish = sym_finish T"
    and r5: "real_slot st' (key_get st' objfile) sym_offsets = sym_offsets T"
    and r7: "real_slot st' (key_get st' objfile) sym_read_linetable = sym_read_linetable T"
    and r8: "real_slot st' (key_get st' objfile) sym_relocate = sym_relocate T"
    and r9: "real_slot st' (key_get st' objfile) sym_probe_fns = sym_probe_fns T"
    and a1: "active_slot st' objfile sym_new_init =
               (if sym_new_init T = None then None else Some Debug_sym_new_init)"
    and a2: "active_slot st' objfile sym_init =
               (if sym_init T = None then None else Some Debug_sym_init)"
    and a3: "active_slot st' objfile sym_read =
               (if sym_read T = None then None else Some Debug_sym_read)"
    and a4: "active_slot st' objfile sym_finish =
               (if sym_finish T = None then None else Some Debug_sym_finish)"
    and a5: "active_slot st' objfile sym_offsets =
               (if sym_offsets T = None then None else Some Debug_sym_offsets)"
    and a7: "active_slot st' objfile sym_read_linetable =
               (if sym_read_linetable T = None then None else Some Debug_sym_read_linetable)"
    and a8: "active_slot st' objfile sym_relocate =
               (if sym_relocate T = None then None else Some Debug_sym_relocate)"
    and a9: "active_slot st' objfile sym_probe_fns =
               (if sym_probe_fns T = None then None else Some debug_sym_probe_fns)"
    using after_install [OF assms] by blast
  note orig = active_slot_original [OF assms(2)]
  have c1: "\<forall>g. sym_new_init T = Some (Backend_objfile_fn g) \<longrightarrow>
            fst (invoke_sym_new_init (Suc depth) st' objfile)
              = fst (invoke_sym_new_init depth st objfile)
          \<and> world (snd (invoke_sym_new_init (Suc depth) st' objfile))
              = world (snd (invoke_sym_new_init depth st objfile))"
  proof (intro allI impI)
    fix g assume slot: "sym_new_init T = Some (Backend_objfile_fn g)"
    from r1 slot have
      rs: "real_slot st' (key_get st' objfile) sym_new_init = Some (Backend_objfile_fn g)"
      by simp
    show "fst (invoke_sym_new_init (Suc depth) st' objfile)
              = fst (invoke_sym_new_init depth st objfile)
          \<and> world (snd (invoke_sym_new_init (Suc depth) st' objfile))
              = world (snd (invoke_sym_new_init depth st objfile))"
      using a1 slot w
      by (simp add: invoke_sym_new_init_def orig void_proxies_forward(1) [OF rs] run_backend_parts)
  qed
  have c2: "\<forall>g. sym_init T = Some (Backend_objfile_fn g) \<longrightarrow>
            fst (invoke_sym_init (Suc depth) st' objfile)
              = fst (invoke_sym_init depth st objfile)
          \<and> world (snd (invoke_sym_init (Suc depth) st' objfile))
              = world (snd (invoke_sym_init depth st objfile))"
  proof (intro allI impI)
    fix g assume slot: "sym_init T = Some (Backend_objfile_fn g)"
    from r2 slot have
      rs: "real_slot st' (key_get st' objfile) sym_init = Some (Backend_objfile_fn g)"
      by simp
    show "fst (invoke_sym_init (Suc depth) st' objfile)
              = fst (invoke_sym_init depth st objfile)
          \<and> world (snd (invoke_sym_init (Suc depth) st' objfile))
              = world (snd (invoke_sym_init depth st objfile))"
      using a2 slot w
      by (simp add: invoke_sym_init_def orig void_proxies_forward(2) [OF rs] run_backend_parts)
  qed
  have c3: "\<forall>g. sym_read T = Some (Backend_read_fn g) \<longrightarrow>
            fst (invoke_sym_read (Suc depth) st' objfile symfile_flags)
              = fst (invoke_sym_read depth st objfile symfile_flags)
          \<and> world (snd (invoke_sym_read (Suc depth) st' objfile symfile_flags))
              = world (snd (invoke_sym_read depth st objfile symfile_flags))"
  proof (intro allI impI)
    fix g assume slot: "sym_read T = Some (Backend_read_fn g)"
    from r3 slot have
      rs: "real_slot st' (key_get st' objfile) sym_read = Some (Backend_read_fn g)"
      by simp
    show "fst (invoke_sym_read (Suc depth) st' objfile symfile_flags)
              = fst (invoke_sym_read depth st objfile symfile_flags)
          \<and> world (snd (invoke_sym_read (Suc depth) st' objfile symfile_flags))
              = world (snd (invoke_sym_read depth st objfile symfile_flags))"
      using a3 slot w
      by (simp add: invoke_sym_read_def orig read_proxy_forwards [OF rs] run_backend_parts)
  qed
  have c4: "\<forall>g. sym_finish T = Some (Backend_objfile_fn g) \<longrightarrow>
            fst (invoke_sym_finish (Suc depth) st' objfile)
              = fst (invoke_sym_finish depth st objfile)
          \<and> world (snd (invoke_sym_finish (Suc depth) st' objfile))
              = world (snd (invoke_sym_finish depth st objfile))"
  proof (intro allI impI)
    fix g assume slot: "sym_finish T = Some (Backend_objfile_fn g)"
    from r4 slot have
      rs: "real_slot st' (key_get st' objfile) sym_finish = Some (Backend_objfile_fn g)"
      by simp
    show "fst (invoke_sym_finish (Suc depth) st' objfile)
              = fst (invoke_sym_finish depth st objfile)
          \<and> world (snd (invoke_sym_finish (Suc depth) st' objfile))
              = world (snd (invoke_sym_finish depth st objfile))"
      using a4 slot w
      by (simp add: invoke_sym_finish_def orig void_proxies_forward(3) [OF rs] run_backend_parts)
  qed
  have c5: "\<forall>g. sym_offsets T = Some (Backend_offsets_fn g) \<longrightarrow>
            fst (invoke_sym_offsets (Suc depth) st' objfile info)
              = fst (invoke_sym_offsets depth st objfile info)
          \<and> world (snd (invoke_sym_offsets (Suc depth) st' objfile info))
              = world (snd (invoke_sym_offsets depth st objfile info))"
  proof (intro allI impI)
    fix g assume slot: "sym_offsets T = Some (Backend_offsets_fn g)"
    from r5 slot have
      rs: "real_slot st' (key_get st' objfile) sym_offsets = Some (Backend_offsets_fn g)"
      by simp
    show "fst (invoke_sym_offsets (Suc depth) st' objfile info)
              = fst (invoke_sym_offsets depth st objfile info)
          \<and> world (snd (invoke_sym_offsets (Suc depth) st' objfile info))
              = world (snd (invoke_sym_offsets depth st objfile info))"
      using a5 slot w
      by (simp add: invoke_sym_offsets_def orig offsets_proxy_forwards [OF rs] run_backend_parts)
  qed
  have c7: "\<forall>g. sym_read_linetable T = Some (Backend_objfile_fn g) \<longrightarrow>
            fst (invoke_sym_read_linetable (Suc depth) st' objfile)
              = fst (invoke_sym_read_linetable depth st objfile)
          \<and> world (snd (invoke_sym_read_linetable (Suc depth) st' objfile))
              = world (snd (invoke_sym_read_linetable depth st objfile))"
  proof (intro allI impI)
    fix g assume slot: "sym_read_linetable T = Some (Backend_objfile_fn g)"
    from r7 slot have
      rs: "real_slot st' (key_get st' objfile) sym_read_linetable = Some (Backend_objfile_fn g)"
      by simp
    show "fst (invoke_sym_read_linetable (Suc depth) st' objfile)
              = fst (invoke_sym_read_linetable depth st objfile)
          \<and> world (snd (invoke_sym_read_linetable (Suc depth) st' objfile))
              = world (snd (invoke_sym_read_linetable depth st objfile))"
      using a7 slot w
      by (simp add: invoke_sym_read_linetable_def orig void_proxies_forward(4) [OF rs] run_backend_parts)
  qed
  have c8: "\<forall>g. sym_relocate T = Some (Backend_relocate_fn g) \<longrightarrow>
            fst (invoke_sym_relocate (Suc depth) st' objfile sectp buf)
              = fst (invoke_sym_relocate depth st objfile sectp buf)
          \<and> world (snd (invoke_sym_relocate (Suc depth) st' objfile sectp buf))
              = world (snd (invoke_sym_relocate depth st objfile sectp buf))"
  proof (intro allI impI)
    fix g assume slot: "sym_relocate T = Some (Backend_relocate_fn g)"
    from r8 slot have
      rs: "real_slot st' (key_get st' objfile) sym_relocate = Some (Backend_relocate_fn g)"
      by simp
    show "fst (invoke_sym_relocate (Suc depth) st' objfile sectp buf)
              = fst (invoke_sym_relocate depth st objfile sectp buf)
          \<and> world (snd (invoke_sym_relocate (Suc depth) st' objfile sectp buf))
              = world (snd (invoke_sym_relocate depth st objfile sectp buf))"
      using a8 slot w
      by (simp add: invoke_sym_relocate_def orig relocate_proxy_forwards [OF rs] run_backend_parts then_do_parts)
  qed
  have c9: "\<forall>probe_fns g. sym_probe_fns T = Some probe_fns
            \<and> sym_get_probes probe_fns = Some (Backend_get_probes_fn g) \<longrightarrow>
            fst (invoke_sym_get_probes (Suc depth) st' objfile)
              = fst (invoke_sym_get_probes depth st objfile)
          \<and> world (snd (invoke_sym_get_probes (Suc depth) st' objfile))
              = world (snd (invoke_sym_get_probes depth st objfile))"
  proof (intro allI impI)
    fix probe_fns g
    assume slot: "sym_probe_fns T = Some probe_fns
            \<and> sym_get_probes probe_fns = Some (Backend_get_probes_fn g)"
    from r9 slot have
      rs: "real_slot st' (key_get st' objfile) sym_probe_fns = Some probe_fns"
      by simp
    from slot have fn: "sym_get_probes probe_fns = Some (Backend_get_probes_fn g)"
      by simp
    show "fst (invoke_sym_get_probes (Suc depth) st' objfile)
              = fst (invoke_sym_get_probes depth st objfile)
          \<and> world (snd (invoke_sym_get_probes (Suc depth) st' objfile))
              = world (snd (invoke_sym_get_probes depth st objfile))"
      using a9 slot w
      by (simp add: invoke_sym_get_probes_def orig get_probes_proxy_forwards [OF rs fn]
                    then_do_parts run_backend_parts debug_sym_probe_fns_def)
  qed
  from inst c1 c2 c3 c4 c5 c7 c8 c9 show ?thesis by blast
qed

theorem proxies_preserve_results_witness:
  "\<not> symfile_debug_installed sample_gdb 4
   \<and> deref_sf sample_gdb (sf (objfile_at sample_gdb 4)) = Some sample_sym_fns
   \<and> (\<exists>st'. install_symfile_debug_logging sample_gdb 4 = Inr st'
         \<and> fst (invoke_sym_relocate (Suc 0) st' 4 8 9) = Returns 17
         \<and> world (snd (invoke_sym_relocate (Suc 0) st' 4 8 9)) = 1
         \<and> fst (invoke_sym_read (Suc 0) st' 4 3) = Returns ()
         \<and> world (snd (invoke_sym_read (Suc 0) st' 4 3)) = 3)"
proof -
  have h1: "\<not> symfile_debug_installed sample_gdb 4"
    by (simp add: symfile_debug_installed_def key_get_def sample_gdb_def)
  have h2: "deref_sf sample_gdb (sf (objfile_at sample_gdb 4)) = Some sample_sym_fns"
    by (simp add: deref_sf_def sample_gdb_def)
  have rel: "sym_relocate sample_sym_fns =
      Some (Backend_relocate_fn (\<lambda>objfile sectp buf w. (Returns (buf + sectp), w + 1)))"
    and rd: "sym_read sample_sym_fns =
      Some (Backend_read_fn (\<lambda>objfile symfile_flags w. (Returns (), w + unat symfile_flags)))"
    by (simp_all add: sample_sym_fns_def)
  have direct:
    "fst (invoke_sym_relocate 0 sample_gdb 4 8 9) = Returns 17"
    "world (snd (invoke_sym_relocate 0 sample_gdb 4 8 9)) = 1"
    "fst (invoke_sym_read 0 sample_gdb 4 3) = Returns ()"
    "world (snd (invoke_sym_read 0 sample_gdb 4 3)) = 3"
    by (simp_all add: invoke_sym_relocate_def invoke_sym_read_def sample_slots rel rd
                      run_backend_parts sample_fields)
  obtain st' where inst: "install_symfile_debug_logging sample_gdb 4 = Inr st'"
    and c8: "\<forall>g. sym_relocate sample_sym_fns = Some (Backend_relocate_fn g) \<longrightarrow>
            fst (invoke_sym_relocate (Suc 0) st' 4 8 9)
              = fst (invoke_sym_relocate 0 sample_gdb 4 8 9)
          \<and> world (snd (invoke_sym_relocate (Suc 0) st' 4 8 9))
              = world (snd (invoke_sym_relocate 0 sample_gdb 4 8 9))"
    and c3: "\<forall>g. sym_read sample_sym_fns = Some (Backend_read_fn g) \<longrightarrow>
            fst (invoke_sym_read (Suc 0) st' 4 3)
              = fst (invoke_sym_read 0 sample_gdb 4 3)
          \<and> world (snd (invoke_sym_read (Suc 0) st' 4 3))
              = world (snd (invoke_sym_read 0 sample_gdb 4 3))"
    using proxies_preserve_results [OF h1 h2, of 0 3 _ 8 9] by blast
  from c8 rel direct have
    "fst (invoke_sym_relocate (Suc 0) st' 4 8 9) = Returns 17
     \<and> world (snd (invoke_sym_relocate (Suc 0) st' 4 8 9)) = 1"
    by metis
  moreover from c3 rd direct have
    "fst (invoke_sym_read (Suc 0) st' 4 3) = Returns ()
     \<and> world (snd (invoke_sym_read (Suc 0) st' 4 3)) = 3"
    by metis
  ultimately show ?thesis
    using h1 h2 inst by blast
qed

subsection \<open>The proxy of \<open>sym_segments\<close>\<close>

text \<open>
  C7. For every state and every argument, \<open>debug_sym_segments\<close> fails the assertion
  \<open>debug_sym_segments called\<close>: it returns no value and changes nothing, whether it is
  called directly, through a pointer to it, or through the table of an objfile whose
  \<open>sym_segments\<close> holds it.
\<close>

theorem segments_proxy_aborts:
  "debug_sym_segments st abfd = (Aborts (Internal_error ''debug_sym_segments called''), st)
   \<and> call_segments_fn Debug_sym_segments abfd st
       = (Aborts (Internal_error ''debug_sym_segments called''), st)
   \<and> (\<forall>retval. fst (call_segments_fn Debug_sym_segments abfd st) \<noteq> Returns retval)
   \<and> (active_slot st objfile sym_segments = Some Debug_sym_segments \<longrightarrow>
        invoke_sym_segments st objfile abfd
          = (Aborts (Internal_error ''debug_sym_segments called''), st))"
  by (simp add: debug_sym_segments_def call_segments_fn_def invoke_sym_segments_def)

theorem segments_proxy_aborts_witness:
  "active_slot sample_logging_gdb 4 sym_segments = Some Debug_sym_segments
   \<and> invoke_sym_segments sample_logging_gdb 4 9
       = (Aborts (Internal_error ''debug_sym_segments called''), sample_logging_gdb)"
proof -
  have h: "active_slot sample_logging_gdb 4 sym_segments = Some Debug_sym_segments"
    by (simp add: sample_slots debug_sym_fns_def)
  have "invoke_sym_segments sample_logging_gdb 4 9
       = (Aborts (Internal_error ''debug_sym_segments called''), sample_logging_gdb)"
    using h segments_proxy_aborts [of sample_logging_gdb 9 4] by blast
  with h show ?thesis by (intro conjI)
qed

subsection \<open>The order of logging and forwarding\<close>

text \<open>
  C2 at a table whose functions throw (objfile 5 of the sample state, proxies installed,
  empty log). \<open>debug_sym_relocate\<close> and \<open>debug_sym_get_probes\<close> call the original before
  they print, so when the original throws the log has no line for the call;
  \<open>debug_sym_read\<close> prints first, and its line is there although \<open>sym_read\<close> threw.
\<close>

theorem relocate_and_probes_log_nothing_on_throw:
  "gdb_stdlog sample_logging_gdb = []
   \<and> invoke_sym_relocate (Suc 0) sample_logging_gdb 5 8 9
       = (Throws ''cannot relocate'', sample_logging_gdb)
   \<and> invoke_sym_get_probes (Suc 0) sample_logging_gdb 5
       = (Throws ''cannot read probes'', sample_logging_gdb)
   \<and> invoke_sym_read (Suc 0) sample_logging_gdb 5 3
       = (Throws ''cannot read symbols'',
          sample_logging_gdb\<lparr>gdb_stdlog :=
            [(''sf->sym_read (%s, 0x%x)'', [Objfile_debug_name 5, Unsigned_arg 3])]\<rparr>)"
proof -
  have rel: "invoke_sym_relocate (Suc 0) sample_logging_gdb 5 8 9
       = (Throws ''cannot relocate'', sample_logging_gdb)"
    by (simp add: invoke_sym_relocate_def sample_slots null_sym_fns_def
          debug_sym_relocate_def throwing_sym_fns_def run_backend_def then_do_def
          world_unchanged sample_fields)
  have probes: "invoke_sym_get_probes (Suc 0) sample_logging_gdb 5
       = (Throws ''cannot read probes'', sample_logging_gdb)"
    by (simp add: invoke_sym_get_probes_def sample_slots null_sym_fns_def
          debug_sym_probe_fns_def debug_sym_get_probes_def throwing_sym_fns_def
          run_backend_def then_do_def world_unchanged sample_fields)
  have rs: "real_slot sample_logging_gdb (key_get sample_logging_gdb 5) sym_read =
      Some (Backend_read_fn (\<lambda>objfile symfile_flags w. (Throws ''cannot read symbols'', w)))"
    by (simp add: sample_slots throwing_sym_fns_def)
  have rd: "invoke_sym_read (Suc 0) sample_logging_gdb 5 3
       = (Throws ''cannot read symbols'',
          sample_logging_gdb\<lparr>gdb_stdlog :=
            [(''sf->sym_read (%s, 0x%x)'', [Objfile_debug_name 5, Unsigned_arg 3])]\<rparr>)"
    by (simp add: invoke_sym_read_def sample_slots null_sym_fns_def
          read_proxy_forwards [OF rs] run_backend_def)
       (simp add: fprintf_filtered_def sample_fields world_unchanged)
  show ?thesis
    by (intro conjI sample_fields rel probes rd)
qed

subsection \<open>Queries of an objfile without \<open>qf\<close>\<close>

lemma print_if_debug_simps [simp]:
  "objfile_at (print_if_debug st format args) = objfile_at st"
  "debug_symfile (print_if_debug st format args) = debug_symfile st"
  "world (print_if_debug st format args) = world st"
  "(print_if_debug st format args)\<lparr>gdb_stdlog := l\<rparr> = st\<lparr>gdb_stdlog := l\<rparr>"
  by (simp_all add: print_if_debug_def fprintf_filtered_def)

lemma null_qf_queries:
  assumes "qf (objfile_at st this) = None"
  shows "fst (objfile_has_partial_symbols OBJF_PSYMTABS_READ st this) = Returns False"
    and "(snd (objfile_has_partial_symbols OBJF_PSYMTABS_READ st this))
           \<lparr>gdb_stdlog := gdb_stdlog st\<rparr> = st"
    and "fst (objfile_find_last_source_symtab st this) = Returns None"
    and "(snd (objfile_find_last_source_symtab st this))
           \<lparr>gdb_stdlog := gdb_stdlog st\<rparr> = st"
    and "fst (objfile_forget_cached_source_info st this) = Returns ()"
    and "(snd (objfile_forget_cached_source_info st this))
           \<lparr>gdb_stdlog := gdb_stdlog st\<rparr> = st"
    and "fst (objfile_map_symtabs_matching_filename st this name real_path callback) = Returns False"
    and "(snd (objfile_map_symtabs_matching_filename st this name real_path callback))
           \<lparr>gdb_stdlog := gdb_stdlog st\<rparr> = st"
    and "fst (objfile_lookup_symbol compunit_primary_filetab st this kind name domain) = Returns None"
    and "(snd (objfile_lookup_symbol compunit_primary_filetab st this kind name domain))
           \<lparr>gdb_stdlog := gdb_stdlog st\<rparr> = st"
    and "fst (objfile_print_stats st this print_bcache) = Returns ()"
    and "(snd (objfile_print_stats st this print_bcache))
           \<lparr>gdb_stdlog := gdb_stdlog st\<rparr> = st"
    and "fst (objfile_dump st this) = Returns ()"
    and "(snd (objfile_dump st this))\<lparr>gdb_stdlog := gdb_stdlog st\<rparr> = st"
    and "fst (objfile_expand_symtabs_for_function st this name) = Returns ()"
    and "(snd (objfile_expand_symtabs_for_function st this name))
           \<lparr>gdb_stdlog := gdb_stdlog st\<rparr> = st"
    and "fst (objfile_expand_all_symtabs st this) = Returns ()"
    and "(snd (objfile_expand_all_symtabs st this))
           \<lparr>gdb_stdlog := gdb_stdlog st\<rparr> = st"
    and "fst (objfile_expand_symtabs_with_fullname st this name) = Returns ()"
    and "(snd (objfile_expand_symtabs_with_fullname st this name))
           \<lparr>gdb_stdlog := gdb_stdlog st\<rparr> = st"
    and "fst (objfile_map_matching_symbols st this lookup_name domain global callback ordered_compare) = Returns ()"
    and "(snd (objfile_map_matching_symbols st this lookup_name domain global callback ordered_compare))
           \<lparr>gdb_stdlog := gdb_stdlog st\<rparr> = st"
    and "fst (objfile_expand_symtabs_matching st this file_matcher lookup_name symbol_matcher expansion_notify search_kind) = Returns ()"
    and "(snd (objfile_expand_symtabs_matching st this file_matcher lookup_name symbol_matcher expansion_notify search_kind))
           \<lparr>gdb_stdlog := gdb_stdlog st\<rparr> = st"
    and "fst (objfile_find_pc_sect_compunit_symtab compunit_primary_filetab st this msymbol pc section warn_if_readin) = Returns None"
    and "(snd (objfile_find_pc_sect_compunit_symtab compunit_primary_filetab st this msymbol pc section warn_if_readin))
           \<lparr>gdb_stdlog := gdb_stdlog st\<rparr> = st"
    and "fst (objfile_map_symbol_filenames st this fun_addr data need_fullname) = Returns ()"
    and "(snd (objfile_map_symbol_filenames st this fun_addr data need_fullname))
           \<lparr>gdb_stdlog := gdb_stdlog st\<rparr> = st"
    and "fst (objfile_find_compunit_symtab_by_address compunit_primary_filetab st this address) = Returns None"
    and "(snd (objfile_find_compunit_symtab_by_address compunit_primary_filetab st this address))
           \<lparr>gdb_stdlog := gdb_stdlog st\<rparr> = st"
  using assms
  by (simp_all add: Let_def then_do_def objfile_has_partial_symbols_def
      objfile_find_last_source_symtab_def objfile_forget_cached_source_info_def
      objfile_map_symtabs_matching_filename_def objfile_lookup_symbol_def
      objfile_print_stats_def objfile_dump_def objfile_expand_symtabs_for_function_def
      objfile_expand_all_symtabs_def objfile_expand_symtabs_with_fullname_def
      objfile_map_matching_symbols_def objfile_expand_symtabs_matching_def
      objfile_find_pc_sect_compunit_symtab_def objfile_map_symbol_filenames_def
      objfile_find_compunit_symtab_by_address_def)

lemma null_qf_language:
  "qf (objfile_at st this) = None \<Longrightarrow>
   objfile_lookup_global_symbol_language st this name domain symbol_found_p
     = (Returns (Language_unknown, False), st)"
  by (simp add: objfile_lookup_global_symbol_language_def)

text \<open>
  C9. When \<open>qf\<close> of the objfile is null, every method that forwards to \<open>qf\<close> returns
  without calling anything: \<open>has_partial_symbols\<close> and \<open>map_symtabs_matching_filename\<close>
  return false, \<open>find_last_source_symtab\<close>, \<open>lookup_symbol\<close>,
  \<open>find_pc_sect_compunit_symtab\<close> and \<open>find_compunit_symtab_by_address\<close> return null, the
  void methods return, and \<open>lookup_global_symbol_language\<close> returns \<open>language_unknown\<close>
  with \<open>*symbol_found_p\<close> set to false. Nothing but the log changes.
\<close>

theorem queries_without_qf:
  assumes "qf (objfile_at st this) = None"
  shows "fst (objfile_has_partial_symbols OBJF_PSYMTABS_READ st this) = Returns False
       \<and> (snd (objfile_has_partial_symbols OBJF_PSYMTABS_READ st this))
            \<lparr>gdb_stdlog := gdb_stdlog st\<rparr> = st
       \<and> fst (objfile_find_last_source_symtab st this) = Returns None
       \<and> (snd (objfile_find_last_source_symtab st this))\<lparr>gdb_stdlog := gdb_stdlog st\<rparr> = st
       \<and> fst (objfile_forget_cached_source_info st this) = Returns ()
       \<and> (snd (objfile_forget_cached_source_info st this))\<lparr>gdb_stdlog := gdb_stdlog st\<rparr> = st
       \<and> fst (objfile_map_symtabs_matching_filename st this name real_path callback)
            = Returns False
       \<and> (snd (objfile_map_symtabs_matching_filename st this name real_path callback))
            \<lparr>gdb_stdlog := gdb_stdlog st\<rparr> = st
       \<and> fst (objfile_lookup_symbol compunit_primary_filetab st this kind name domain)
            = Returns None
       \<and> (snd (objfile_lookup_symbol compunit_primary_filetab st this kind name domain))
            \<lparr>gdb_stdlog := gdb_stdlog st\<rparr> = st
       \<and> fst (objfile_print_stats st this print_bcache) = Returns ()
       \<and> (snd (objfile_print_stats st this print_bcache))\<lparr>gdb_stdlog := gdb_stdlog st\<rparr> = st
       \<and> fst (objfile_dump st this) = Returns ()
       \<and> (snd (objfile_dump st this))\<lparr>gdb_stdlog := gdb_stdlog st\<rparr> = st
       \<and> fst (objfile_expand_symtabs_for_function st this name) = Returns ()
       \<and> (snd (objfile_expand_symtabs_for_function st this name))
            \<lparr>gdb_stdlog := gdb_stdlog st\<rparr> = st
       \<and> fst (objfile_expand_all_symtabs st this) = Returns ()
       \<and> (snd (objfile_expand_all_symtabs st this))\<lparr>gdb_stdlog := gdb_stdlog st\<rparr> = st
       \<and> fst (objfile_expand_symtabs_with_fullname st this name) = Returns ()
       \<and> (snd (objfile_expand_symtabs_with_fullname st this name))
            \<lparr>gdb_stdlog := gdb_stdlog st\<rparr> = st
       \<and> fst (objfile_map_matching_symbols st this lookup_name domain global callback
                 ordered_compare) = Returns ()
       \<and> (snd (objfile_map_matching_symbols st this lookup_name domain global callback
                 ordered_compare))\<lparr>gdb_stdlog := gdb_stdlog st\<rparr> = st
       \<and> fst (objfile_expand_symtabs_matching st this file_matcher lookup_name
                 symbol_matcher expansion_notify search_kind) = Returns ()
       \<and> (snd (objfile_expand_symtabs_matching st this file_matcher lookup_name
                 symbol_matcher expansion_notify search_kind))
            \<lparr>gdb_stdlog := gdb_stdlog st\<rparr> = st
       \<and> fst (objfile_find_pc_sect_compunit_symtab compunit_primary_filetab st this
                 msymbol pc section warn_if_readin) = Returns None
       \<and> (snd (objfile_find_pc_sect_compunit_symtab compunit_primary_filetab st this
                 msymbol pc section warn_if_readin))\<lparr>gdb_stdlog := gdb_stdlog st\<rparr> = st
       \<and> fst (objfile_map_symbol_filenames st this fun_addr data need_fullname) = Returns ()
       \<and> (snd (objfile_map_symbol_filenames st this fun_addr data need_fullname))
            \<lparr>gdb_stdlog := gdb_stdlog st\<rparr> = st
       \<and> fst (objfile_find_compunit_symtab_by_address compunit_primary_filetab st this
                 address) = Returns None
       \<and> (snd (objfile_find_compunit_symtab_by_address compunit_primary_filetab st this
                 address))\<lparr>gdb_stdlog := gdb_stdlog st\<rparr> = st
       \<and> objfile_lookup_global_symbol_language st this name domain symbol_found_p
            = (Returns (Language_unknown, False), st)"
  by (intro conjI null_qf_queries [OF assms] null_qf_language [OF assms])

theorem queries_without_qf_witness:
  "qf (objfile_at sample_gdb 4) = None
   \<and> fst (objfile_has_partial_symbols 8 sample_gdb 4) = Returns False
   \<and> fst (objfile_find_last_source_symtab sample_gdb 4) = Returns None
   \<and> objfile_lookup_global_symbol_language sample_gdb 4 ''main'' 0 True
       = (Returns (Language_unknown, False), sample_gdb)"
proof -
  have h: "qf (objfile_at sample_gdb 4) = None"
    by (simp add: sample_gdb_def)
  note q = queries_without_qf [OF h, where OBJF_PSYMTABS_READ = 8 and name = "''main''"
             and domain = 0 and symbol_found_p = True]
  from q have a: "fst (objfile_has_partial_symbols 8 sample_gdb 4) = Returns False"
    by (rule conjunct1)
  from q have b: "fst (objfile_find_last_source_symtab sample_gdb 4) = Returns None"
    by (rule conjunct2 [THEN conjunct2, THEN conjunct1])
  from q have c: "objfile_lookup_global_symbol_language sample_gdb 4 ''main'' 0 True
       = (Returns (Language_unknown, False), sample_gdb)"
    by simp
  show ?thesis by (intro conjI h a b c)
qed

end
